theory Spec2Isabelle
  imports Complex_Main
begin

section \<open>Data model of the Alibaba infoer\<close>

text \<open>
  The embedding follows \<^verbatim>\<open>internal/cloudinfo/providers/alibaba/cloudinfo.go\<close>.
  The functions modelled here only copy \<^verbatim>\<open>float64\<close> values or set them to 0 and -1,
  so they are carried as reals; the one floating-point computation, the formatting of the
  bandwidth, is a parameter. Go's \<^verbatim>\<open>int\<close> fields are only converted and printed, so
  they are carried as integers.
\<close>

type_synonym float64 = real

text \<open>
  An error value: the text of \<^verbatim>\<open>err.Error()\<close> and the labels that
  \<^verbatim>\<open>emperror.Context(err)\<close> yields. \<^verbatim>\<open>errors.New\<close> makes an error with no context,
  \<^verbatim>\<open>emperror.With\<close> attaches a label, and \<^verbatim>\<open>Wrap\<close> prefixes the message.
\<close>

record error =
  errMessage :: string
  errContext :: "string list"

definition errorsNew :: "string \<Rightarrow> error" where
  "errorsNew msg = \<lparr>errMessage = msg, errContext = []\<rparr>"

definition emperrorWith :: "error \<Rightarrow> string \<Rightarrow> error" where
  "emperrorWith err label = err\<lparr>errContext := errContext err @ [label]\<rparr>"

definition emperrorWrap :: "error \<Rightarrow> string \<Rightarrow> error" where
  "emperrorWrap err msg = err\<lparr>errMessage := msg @ '': '' @ errMessage err\<rparr>"

text \<open>\<^verbatim>\<open>types.VMInfo\<close>, with the fields that the infoer fills.\<close>

record VMInfo =
  Category :: string
  Type :: string
  OnDemandPrice :: float64
  Cpus :: float64
  Mem :: float64
  Gpus :: float64
  NtwPerf :: string
  NtwPerfCat :: string
  Zones :: "string list"
  Attributes :: "string \<rightharpoonup> string"

text \<open>\<^verbatim>\<open>types.SpotPriceInfo\<close> maps a zone id to a price; \<^verbatim>\<open>types.Price\<close> pairs it
  with an on-demand price (the field is prefixed, \<^verbatim>\<open>VMInfo\<close> has one of the same name).\<close>

type_synonym SpotPriceInfo = "string \<rightharpoonup> float64"

record Price =
  SpotPrice :: SpotPriceInfo
  Price_OnDemandPrice :: float64

text \<open>The parts of the SDK's response structures that the infoer reads.\<close>

record InstanceType =
  InstanceTypeId :: string
  InstanceBandwidthRx :: int
  CpuCoreCount :: int
  MemorySize :: float64
  GPUAmount :: int

record ResourcesInfo =
  SupportedInstanceType :: "string list"

record Zone =
  ZoneId :: string
  AvailableInstanceTypes :: "string list"
  AvailableResources :: "ResourcesInfo list"

record SpotPriceType =
  SpotPriceType_ZoneId :: string
  SpotPriceType_SpotPrice :: float64

record ModuleDetail =
  OriginalCost :: float64

record GetPayAsYouGoPriceResponse =
  Success :: bool
  Code :: string
  ModuleDetails :: "ModuleDetail list"

section \<open>The provider client\<close>

text \<open>
  \<^verbatim>\<open>a.client.ProcessCommonRequest(req)\<close> followed by \<^verbatim>\<open>json.Unmarshal\<close> has three
  outcomes: the request fails, the body cannot be decoded, or the response structure is
  filled. The provider is outside the program: its answers may depend on everything it
  was asked before, so each operation takes and returns the provider's state.
\<close>

datatype 'a reply = RequestFailed error | Undecodable error | Decoded 'a

record 's CommonDescriber =
  DescribeZones :: "'s \<Rightarrow> string \<Rightarrow> Zone list reply \<times> 's"
  DescribeInstanceTypes :: "'s \<Rightarrow> InstanceType list reply \<times> 's"
  DescribeSpotPriceHistory :: "'s \<Rightarrow> string \<Rightarrow> string \<Rightarrow> SpotPriceType list reply \<times> 's"
  GetPayAsYouGoPrice :: "'s \<Rightarrow> string \<Rightarrow> string list \<Rightarrow> GetPayAsYouGoPriceResponse reply \<times> 's"

text \<open>
  The requests a run makes are recorded, in order, beside the provider's state. A price
  request is tagged with the place that issued it: the request for a whole batch
  (line 247) or the follow-up for one member of a rejected batch (line 251). A request
  for a spot price history is recorded with the id of the zone that the loop was visiting
  and the instance type asked for.
\<close>

datatype site = BatchRequest | RetryRequest

datatype event =
    ZonesCall "Zone list reply"
  | InstanceTypesCall "InstanceType list reply"
  | SpotPriceHistoryCall string string "SpotPriceType list reply"
  | PriceCall site "string list" "error + float64 list"

record 's world =
  clientState :: 's
  trace :: "event list"

text \<open>A call either returns a value, returns an error, or panics (an index out of range).\<close>

datatype 'a outcome = Ok 'a | Err error | Panic

text \<open>
  The helpers that \<^verbatim>\<open>GetVirtualMachines\<close> calls and that are defined outside the file:
  the network mapper, the category mapper, \<^verbatim>\<open>cloudinfo.Attributes\<close> and the formatting
  of numbers. Each is a parameter; a mapper returns its string together with an optional
  error, as the Go functions do.
\<close>

record helpers =
  MapNetworkPerf :: "string \<Rightarrow> string \<times> error option"
  mapCategory :: "string \<Rightarrow> string \<times> error option"
  formatNtwPerf :: "int \<Rightarrow> string"
  SprintInt :: "int \<Rightarrow> string"
  SprintFloat :: "float64 \<Rightarrow> string"
  cloudinfoAttributes :: "string \<Rightarrow> string \<Rightarrow> string \<Rightarrow> string \<Rightarrow> (string \<rightharpoonup> string)"

section \<open>Operations\<close>

text \<open>
  Each operation takes the client and the state of the world and returns its result with
  the new state. The calls to the logger change no result and are left out: where the
  source logs an error and goes on, the model goes on.
\<close>

fun hasLabel :: "string list \<Rightarrow> string \<Rightarrow> bool" where
  "hasLabel [] s = False"
| "hasLabel (e # ctx) s = (if e = s then True else hasLabel ctx s)"

definition getZones :: "'s CommonDescriber \<Rightarrow> string \<Rightarrow> 's world \<Rightarrow> (error + Zone list) \<times> 's world" where
  "getZones c region w =
     (case DescribeZones c (clientState w) region of
        (r, s') \<Rightarrow>
          (let w' = \<lparr>clientState = s', trace = trace w @ [ZonesCall r]\<rparr> in
           case r of
             RequestFailed err \<Rightarrow> (Inl (emperrorWrap err ''DescribeZones API call problem''), w')
           | Undecodable err \<Rightarrow> (Inl err, w')
           | Decoded zones \<Rightarrow> (Inr zones, w')))"

definition getInstanceTypes :: "'s CommonDescriber \<Rightarrow> 's world \<Rightarrow> (error + InstanceType list) \<times> 's world" where
  "getInstanceTypes c w =
     (case DescribeInstanceTypes c (clientState w) of
        (r, s') \<Rightarrow>
          (let w' = \<lparr>clientState = s', trace = trace w @ [InstanceTypesCall r]\<rparr> in
           case r of
             RequestFailed err \<Rightarrow> (Inl (emperrorWrap err ''DescribeInstanceTypes API call problem''), w')
           | Undecodable err \<Rightarrow> (Inl err, w')
           | Decoded its \<Rightarrow> (Inr its, w')))"

subsection \<open>On-demand prices\<close>

definition getPrice :: "'s CommonDescriber \<Rightarrow> string list \<Rightarrow> string \<Rightarrow> 's \<Rightarrow> (error + float64 list) \<times> 's" where
  "getPrice c instanceTypes region s =
     (case GetPayAsYouGoPrice c s region instanceTypes of
        (RequestFailed err, s') \<Rightarrow> (Inl err, s')
      | (Undecodable err, s') \<Rightarrow> (Inl err, s')
      | (Decoded response, s') \<Rightarrow>
          if \<not> Success response
          then (Inl (emperrorWith (errorsNew ''failed to get price'') (Code response)), s')
          else (Inr (map OriginalCost (ModuleDetails response)), s'))"

text \<open>One price request from the given place, recorded in the trace.\<close>

definition priceRequest ::
  "'s CommonDescriber \<Rightarrow> site \<Rightarrow> string list \<Rightarrow> string \<Rightarrow> 's world \<Rightarrow> (error + float64 list) \<times> 's world" where
  "priceRequest c st instanceTypes region w =
     (case getPrice c instanceTypes region (clientState w) of
        (r, s') \<Rightarrow> (r, \<lparr>clientState = s', trace = trace w @ [PriceCall st instanceTypes r]\<rparr>))"

text \<open>
  Lines 250 to 257: one follow-up request for each member of a rejected batch. A member
  whose request fails is skipped; \<^verbatim>\<open>prices[0]\<close> of an empty slice panics.
\<close>

fun retryEach ::
  "'s CommonDescriber \<Rightarrow> string \<Rightarrow> string list \<Rightarrow> (string \<rightharpoonup> float64) \<Rightarrow> 's world
     \<Rightarrow> (string \<rightharpoonup> float64) outcome \<times> 's world" where
  "retryEach c region [] allPrices w = (Ok allPrices, w)"
| "retryEach c region (t # ts) allPrices w =
     (case priceRequest c RetryRequest [t] region w of
        (Inl err, w') \<Rightarrow> retryEach c region ts allPrices w'
      | (Inr [], w') \<Rightarrow> (Panic, w')
      | (Inr (p # ps), w') \<Rightarrow> retryEach c region ts (allPrices(t \<mapsto> p)) w')"

text \<open>
  Lines 262 to 264: the i-th price goes to the i-th member of the batch;
  \<^verbatim>\<open>instanceTypes[i]\<close> panics when there are more prices than members.
\<close>

fun assignPrices :: "string list \<Rightarrow> float64 list \<Rightarrow> (string \<rightharpoonup> float64) \<Rightarrow> (string \<rightharpoonup> float64) option" where
  "assignPrices instanceTypes [] allPrices = Some allPrices"
| "assignPrices [] (price # prices) allPrices = None"
| "assignPrices (t # ts) (price # prices) allPrices = assignPrices ts prices (allPrices(t \<mapsto> price))"

text \<open>Lines 247 to 265: the body run for a complete batch.\<close>

definition priceBatch ::
  "'s CommonDescriber \<Rightarrow> string \<Rightarrow> string list \<Rightarrow> (string \<rightharpoonup> float64) \<Rightarrow> 's world
     \<Rightarrow> (string \<rightharpoonup> float64) outcome \<times> 's world" where
  "priceBatch c region instanceTypes allPrices w =
     (case priceRequest c BatchRequest instanceTypes region w of
        (Inl err, w') \<Rightarrow>
          if errMessage err = ''failed to get price'' \<and> hasLabel (errContext err) ''InvalidParameter''
          then retryEach c region instanceTypes allPrices w'
          else (Err err, w')
      | (Inr prices, w') \<Rightarrow>
          (case assignPrices instanceTypes prices allPrices of
             None \<Rightarrow> (Panic, w')
           | Some allPrices' \<Rightarrow> (Ok allPrices', w')))"

text \<open>
  Lines 243 to 269: the loop over \<^verbatim>\<open>vms\<close>, with the length of the whole list, the
  index of the current element, the batch collected so far and the price map.
\<close>

fun priceLoop ::
  "'s CommonDescriber \<Rightarrow> string \<Rightarrow> nat \<Rightarrow> nat \<Rightarrow> VMInfo list \<Rightarrow> string list \<Rightarrow> (string \<rightharpoonup> float64)
     \<Rightarrow> 's world \<Rightarrow> (string \<rightharpoonup> float64) outcome \<times> 's world" where
  "priceLoop c region n index [] instanceTypes allPrices w = (Ok allPrices, w)"
| "priceLoop c region n index (vm # vms) instanceTypes allPrices w =
     (if length (instanceTypes @ [Type vm]) = 25 \<or> index + 1 = n
      then (case priceBatch c region (instanceTypes @ [Type vm]) allPrices w of
              (Ok allPrices', w') \<Rightarrow> priceLoop c region n (index + 1) vms [] allPrices' w'
            | (Err err, w') \<Rightarrow> (Err err, w')
            | (Panic, w') \<Rightarrow> (Panic, w'))
      else priceLoop c region n (index + 1) vms (instanceTypes @ [Type vm]) allPrices w)"

definition fetchPrices ::
  "'s CommonDescriber \<Rightarrow> VMInfo list \<Rightarrow> string \<Rightarrow> 's world \<Rightarrow> (string \<rightharpoonup> float64) outcome \<times> 's world" where
  "fetchPrices c vms region w = priceLoop c region (length vms) 0 vms [] Map.empty w"

text \<open>Reading a Go map at a key it does not hold gives the zero value.\<close>

definition priceOf :: "(string \<rightharpoonup> float64) \<Rightarrow> string \<Rightarrow> float64" where
  "priceOf allPrices t = (case allPrices t of None \<Rightarrow> 0 | Some p \<Rightarrow> p)"

definition withPrice :: "(string \<rightharpoonup> float64) \<Rightarrow> VMInfo \<Rightarrow> VMInfo" where
  "withPrice allPrices vm =
     \<lparr>Category = Category vm, Type = Type vm, OnDemandPrice = priceOf allPrices (Type vm),
      Cpus = Cpus vm, Mem = Mem vm, Gpus = Gpus vm, NtwPerf = NtwPerf vm,
      NtwPerfCat = NtwPerfCat vm, Zones = Zones vm, Attributes = Attributes vm\<rparr>"

definition getOnDemandPrice ::
  "'s CommonDescriber \<Rightarrow> VMInfo list \<Rightarrow> string \<Rightarrow> 's world \<Rightarrow> VMInfo list outcome \<times> 's world" where
  "getOnDemandPrice c vms region w =
     (case fetchPrices c vms region w of
        (Ok allPrices, w') \<Rightarrow> (Ok (map (withPrice allPrices) vms), w')
      | (Err err, w') \<Rightarrow> (Err err, w')
      | (Panic, w') \<Rightarrow> (Panic, w'))"

subsection \<open>Virtual machines\<close>

text \<open>
  Lines 146 to 155. The innermost loop stops at the first supported type that equals the
  instance type; the \<^verbatim>\<open>break\<close> leaves that loop only, so a zone is appended once for
  each of its resource entries that lists the type.
\<close>

fun supportedLoop :: "string list \<Rightarrow> string \<Rightarrow> string \<Rightarrow> string list \<Rightarrow> string list" where
  "supportedLoop [] instanceTypeId zoneId zones = zones"
| "supportedLoop (availableInstanceType # rest) instanceTypeId zoneId zones =
     (if availableInstanceType = instanceTypeId then zones @ [zoneId]
      else supportedLoop rest instanceTypeId zoneId zones)"

fun resourcesLoop :: "ResourcesInfo list \<Rightarrow> string \<Rightarrow> string \<Rightarrow> string list \<Rightarrow> string list" where
  "resourcesLoop [] instanceTypeId zoneId zones = zones"
| "resourcesLoop (resourcesInfo # rest) instanceTypeId zoneId zones =
     resourcesLoop rest instanceTypeId zoneId
       (supportedLoop (SupportedInstanceType resourcesInfo) instanceTypeId zoneId zones)"

fun zonesLoop :: "Zone list \<Rightarrow> string \<Rightarrow> string list \<Rightarrow> string list" where
  "zonesLoop [] instanceTypeId zones = zones"
| "zonesLoop (zone # rest) instanceTypeId zones =
     zonesLoop rest instanceTypeId
       (resourcesLoop (AvailableResources zone) instanceTypeId (ZoneId zone) zones)"

text \<open>
  Lines 157 to 181: the descriptor of one instance type. The errors of the two mappers
  are logged and otherwise unused; the strings they return are stored as they are.
\<close>

definition describeVM :: "helpers \<Rightarrow> InstanceType \<Rightarrow> string list \<Rightarrow> VMInfo" where
  "describeVM h instanceType zones =
     (let ntwPerf = formatNtwPerf h (InstanceBandwidthRx instanceType);
          ntwPerfCat = fst (MapNetworkPerf h ntwPerf);
          category = fst (mapCategory h (InstanceTypeId instanceType))
      in \<lparr>Category = category,
          Type = InstanceTypeId instanceType,
          OnDemandPrice = 0,
          Cpus = real_of_int (CpuCoreCount instanceType),
          Mem = MemorySize instanceType,
          Gpus = real_of_int (GPUAmount instanceType),
          NtwPerf = ntwPerf,
          NtwPerfCat = ntwPerfCat,
          Zones = zones,
          Attributes = cloudinfoAttributes h (SprintInt h (CpuCoreCount instanceType))
                         (SprintFloat h (MemorySize instanceType)) ntwPerfCat category\<rparr>)"

fun vmsLoop :: "helpers \<Rightarrow> InstanceType list \<Rightarrow> Zone list \<Rightarrow> VMInfo list \<Rightarrow> VMInfo list" where
  "vmsLoop h [] availableZones vms = vms"
| "vmsLoop h (instanceType # rest) availableZones vms =
     (let zones = zonesLoop availableZones (InstanceTypeId instanceType) [] in
      if length zones > 0
      then vmsLoop h rest availableZones (vms @ [describeVM h instanceType zones])
      else vmsLoop h rest availableZones vms)"

definition GetVirtualMachines ::
  "helpers \<Rightarrow> 's CommonDescriber \<Rightarrow> string \<Rightarrow> 's world \<Rightarrow> VMInfo list outcome \<times> 's world" where
  "GetVirtualMachines h c region w =
     (case getInstanceTypes c w of
        (Inl err, w1) \<Rightarrow> (Err err, w1)
      | (Inr instanceTypes, w1) \<Rightarrow>
          (case getZones c region w1 of
             (Inl err, w2) \<Rightarrow> (Err err, w2)
           | (Inr availableZones, w2) \<Rightarrow>
               getOnDemandPrice c (vmsLoop h instanceTypes availableZones []) region w2))"

definition svcAck :: string where
  "svcAck = ''ack''"

definition serviceSwitch :: "VMInfo list \<Rightarrow> string \<Rightarrow> VMInfo list outcome" where
  "serviceSwitch vmList service =
     (if service = svcAck then Ok vmList
      else if service = ''compute'' then Ok vmList
      else Err (emperrorWrap (errorsNew service) ''invalid service''))"

definition GetProducts ::
  "helpers \<Rightarrow> 's CommonDescriber \<Rightarrow> VMInfo list \<Rightarrow> string \<Rightarrow> string \<Rightarrow> 's world
     \<Rightarrow> VMInfo list outcome \<times> 's world" where
  "GetProducts h c vms service regionId w =
     (if length vms = 0
      then (case GetVirtualMachines h c regionId w of
              (Ok vmList, w') \<Rightarrow> (serviceSwitch vmList service, w')
            | (Err err, w') \<Rightarrow> (Err (emperrorWrap err ''failed to get products''), w')
            | (Panic, w') \<Rightarrow> (Panic, w'))
      else (serviceSwitch vms service, w))"

subsection \<open>Spot prices\<close>

text \<open>
  Lines 99 to 105. \<^verbatim>\<open>spotPrice\<close> is a Go map, a reference: once
  \<^verbatim>\<open>priceInfo[instanceType] = spotPrice\<close> has run, the later write
  \<^verbatim>\<open>spotPrice[zone.ZoneId] = ...\<close> is seen through \<^verbatim>\<open>priceInfo\<close> too. The loop
  therefore carries the content of \<^verbatim>\<open>spotPrice\<close> and whether it has been stored, and
  the caller stores the final content.
\<close>

fun priceTypesLoop :: "string \<Rightarrow> SpotPriceType list \<Rightarrow> SpotPriceInfo \<Rightarrow> bool \<Rightarrow> SpotPriceInfo \<times> bool" where
  "priceTypesLoop zoneId [] spotPrice stored = (spotPrice, stored)"
| "priceTypesLoop zoneId (priceType # rest) spotPrice stored =
     (if zoneId = SpotPriceType_ZoneId priceType
      then (spotPrice(zoneId \<mapsto> SpotPriceType_SpotPrice priceType), stored)
      else priceTypesLoop zoneId rest spotPrice True)"

text \<open>Line 83: the request for one instance type, recorded with the zone being visited.\<close>

definition spotPriceRequest ::
  "'s CommonDescriber \<Rightarrow> string \<Rightarrow> string \<Rightarrow> string \<Rightarrow> 's world
     \<Rightarrow> SpotPriceType list reply \<times> 's world" where
  "spotPriceRequest c region zoneId instanceType w =
     (case DescribeSpotPriceHistory c (clientState w) region instanceType of
        (r, s') \<Rightarrow>
          (r, \<lparr>clientState = s', trace = trace w @ [SpotPriceHistoryCall zoneId instanceType r]\<rparr>))"

text \<open>Lines 81 to 107: the instance types of one zone.\<close>

fun spotTypesLoop ::
  "'s CommonDescriber \<Rightarrow> string \<Rightarrow> string \<Rightarrow> string list \<Rightarrow> (string \<rightharpoonup> SpotPriceInfo) \<Rightarrow> 's world
     \<Rightarrow> (error + (string \<rightharpoonup> SpotPriceInfo)) \<times> 's world" where
  "spotTypesLoop c region zoneId [] priceInfo w = (Inr priceInfo, w)"
| "spotTypesLoop c region zoneId (instanceType # rest) priceInfo w =
     (if priceInfo instanceType = None
      then (case spotPriceRequest c region zoneId instanceType w of
              (RequestFailed err, w') \<Rightarrow> spotTypesLoop c region zoneId rest priceInfo w'
            | (Undecodable err, w') \<Rightarrow> (Inl err, w')
            | (Decoded priceTypes, w') \<Rightarrow>
                (case priceTypesLoop zoneId priceTypes Map.empty False of
                   (spotPrice, stored) \<Rightarrow>
                     spotTypesLoop c region zoneId rest
                       (if stored then priceInfo(instanceType \<mapsto> spotPrice) else priceInfo) w'))
      else spotTypesLoop c region zoneId rest priceInfo w)"

text \<open>Lines 80 to 108: the zones of the region.\<close>

fun spotZonesLoop ::
  "'s CommonDescriber \<Rightarrow> string \<Rightarrow> Zone list \<Rightarrow> (string \<rightharpoonup> SpotPriceInfo) \<Rightarrow> 's world
     \<Rightarrow> (error + (string \<rightharpoonup> SpotPriceInfo)) \<times> 's world" where
  "spotZonesLoop c region [] priceInfo w = (Inr priceInfo, w)"
| "spotZonesLoop c region (zone # rest) priceInfo w =
     (case spotTypesLoop c region (ZoneId zone) (AvailableInstanceTypes zone) priceInfo w of
        (Inl err, w') \<Rightarrow> (Inl err, w')
      | (Inr priceInfo', w') \<Rightarrow> spotZonesLoop c region rest priceInfo' w')"

definition getCurrentSpotPrices ::
  "'s CommonDescriber \<Rightarrow> string \<Rightarrow> 's world \<Rightarrow> (error + (string \<rightharpoonup> SpotPriceInfo)) \<times> 's world" where
  "getCurrentSpotPrices c region w =
     (case getZones c region w of
        (Inl err, w') \<Rightarrow> (Inl err, w')
      | (Inr zones, w') \<Rightarrow> spotZonesLoop c region zones Map.empty w')"

text \<open>
  Lines 366 to 387. The loop over the map visits every key once and writes one entry
  for it; the report to the metrics has no effect on the result and is left out.
\<close>

definition GetCurrentPrices ::
  "'s CommonDescriber \<Rightarrow> string \<Rightarrow> 's world \<Rightarrow> (error + (string \<rightharpoonup> Price)) \<times> 's world" where
  "GetCurrentPrices c region w =
     (case getCurrentSpotPrices c region w of
        (Inl err, w') \<Rightarrow> (Inl err, w')
      | (Inr spotPrices, w') \<Rightarrow>
          (Inr (\<lambda>instanceType.
                  case spotPrices instanceType of
                    None \<Rightarrow> None
                  | Some sp \<Rightarrow> Some \<lparr>SpotPrice = sp, Price_OnDemandPrice = - 1\<rparr>), w'))"

definition HasShortLivedPriceInfo :: "'s CommonDescriber \<Rightarrow> bool" where
  "HasShortLivedPriceInfo a = False"

section \<open>Observations on a run\<close>

text \<open>
  The events a call appended to the trace, the batch requests and the follow-up requests
  among them, and the instance types whose follow-up request failed.
\<close>

definition newEvents :: "'s world \<Rightarrow> 's world \<Rightarrow> event list" where
  "newEvents w w' = drop (length (trace w)) (trace w')"

fun batchesOf :: "event list \<Rightarrow> string list list" where
  "batchesOf [] = []"
| "batchesOf (PriceCall BatchRequest ts r # evs) = ts # batchesOf evs"
| "batchesOf (ev # evs) = batchesOf evs"

fun retriesOf :: "event list \<Rightarrow> string list list" where
  "retriesOf [] = []"
| "retriesOf (PriceCall RetryRequest ts r # evs) = ts # retriesOf evs"
| "retriesOf (ev # evs) = retriesOf evs"

definition retryFailed :: "event list \<Rightarrow> string set" where
  "retryFailed evs = {t. \<exists>err. PriceCall RetryRequest [t] (Inl err) \<in> set evs}"

definition retryTypes :: "event list \<Rightarrow> string set" where
  "retryTypes evs = {t. \<exists>r. PriceCall RetryRequest [t] r \<in> set evs}"

definition onePricePerType :: "event list \<Rightarrow> bool" where
  "onePricePerType evs =
     (\<forall>ts prices. PriceCall BatchRequest ts (Inr prices) \<in> set evs \<longrightarrow> length prices = length ts)"

text \<open>
  For the spot prices: the pairs of zone and instance type a run asked the price history
  for, the instance types among them, whether one of those responses could not be
  decoded, and the pairs of zone and instance type that the zones list.
\<close>

definition spotCalls :: "event list \<Rightarrow> (string \<times> string) set" where
  "spotCalls evs = {(z, t). \<exists>r. SpotPriceHistoryCall z t r \<in> set evs}"

definition spotRequested :: "event list \<Rightarrow> string set" where
  "spotRequested evs = {t. \<exists>z r. SpotPriceHistoryCall z t r \<in> set evs}"

definition spotUndecodable :: "event list \<Rightarrow> bool" where
  "spotUndecodable evs = (\<exists>z t err. SpotPriceHistoryCall z t (Undecodable err) \<in> set evs)"

fun zonePairs :: "Zone list \<Rightarrow> (string \<times> string) set" where
  "zonePairs [] = {}"
| "zonePairs (zone # zones) = ({ZoneId zone} \<times> set (AvailableInstanceTypes zone)) \<union> zonePairs zones"

text \<open>
  A run stored the prices \<open>sp\<close> for the instance type \<open>t\<close>: a history for \<open>t\<close> was
  decoded while some zone was visited, and the loop of lines 99 to 105, run on it for that
  zone, ended with \<open>sp\<close> and with the store into \<^verbatim>\<open>priceInfo\<close> done.
\<close>

definition spotStored :: "event list \<Rightarrow> string \<Rightarrow> SpotPriceInfo \<Rightarrow> bool" where
  "spotStored evs t sp \<longleftrightarrow>
     (\<exists>z priceTypes. SpotPriceHistoryCall z t (Decoded priceTypes) \<in> set evs \<and>
        priceTypesLoop z priceTypes Map.empty False = (sp, True))"

text \<open>
  What holds after the loops over instance types and zones, started with the price map
  \<open>priceInfo\<close>, for the set \<open>P\<close> of pairs of zone and instance type visited, the result and
  the events added. The loop fails exactly when a response could not be decoded, and it
  asks for visited pairs only. When it returns a map, it asked only for instance types
  that the map did not hold at the start, every visited type was in the map or asked for,
  and the map returned holds what the map held at the start and what the run stored.
\<close>

definition spotLoopPost ::
  "(string \<rightharpoonup> SpotPriceInfo) \<Rightarrow> (string \<times> string) set \<Rightarrow> (error + (string \<rightharpoonup> SpotPriceInfo))
     \<Rightarrow> event list \<Rightarrow> bool" where
  "spotLoopPost priceInfo P res evs \<longleftrightarrow>
     (isl res \<longleftrightarrow> spotUndecodable evs) \<and> spotCalls evs \<subseteq> P \<and>
     (\<forall>priceInfo'. res = Inr priceInfo' \<longrightarrow>
        spotRequested evs \<inter> dom priceInfo = {} \<and>
        snd ` P \<subseteq> dom priceInfo \<union> spotRequested evs \<and>
        (\<forall>t sp. priceInfo' t = Some sp \<longleftrightarrow> priceInfo t = Some sp \<or> spotStored evs t sp))"

text \<open>The error that \<^verbatim>\<open>GetProducts\<close> returns for a service it does not know.\<close>

definition invalidService :: "string \<Rightarrow> error" where
  "invalidService service = emperrorWrap (errorsNew service) ''invalid service''"

section \<open>Example providers\<close>

text \<open>The provider of the examples has no state; a run starts with an empty trace.\<close>

definition world0 :: "unit world" where
  "world0 = \<lparr>clientState = (), trace = []\<rparr>"

text \<open>A descriptor as \<^verbatim>\<open>GetVirtualMachines\<close> builds it, for the instance type of the given name.\<close>

definition exampleVM :: "string \<Rightarrow> VMInfo" where
  "exampleVM t =
     \<lparr>Category = ''General purpose'', Type = t, OnDemandPrice = 0, Cpus = 2, Mem = 4, Gpus = 0,
      NtwPerf = ''1.0 Gbit/s'', NtwPerfCat = ''medium'', Zones = [''z1''], Attributes = Map.empty\<rparr>"

text \<open>A provider that answers a request by its arguments alone.\<close>

definition staticProvider ::
  "Zone list reply \<Rightarrow> InstanceType list reply \<Rightarrow> (string \<Rightarrow> SpotPriceType list reply)
     \<Rightarrow> (string list \<Rightarrow> GetPayAsYouGoPriceResponse reply) \<Rightarrow> unit CommonDescriber" where
  "staticProvider zones types spot price =
     \<lparr>DescribeZones = (\<lambda>s region. (zones, s)),
      DescribeInstanceTypes = (\<lambda>s. (types, s)),
      DescribeSpotPriceHistory = (\<lambda>s region t. (spot t, s)),
      GetPayAsYouGoPrice = (\<lambda>s region ts. (price ts, s))\<rparr>"

text \<open>A successful price response with the given costs, and a refused one with the given code.\<close>

definition priced :: "float64 list \<Rightarrow> GetPayAsYouGoPriceResponse reply" where
  "priced ps = Decoded \<lparr>Success = True, Code = '''', ModuleDetails = map (\<lambda>p. \<lparr>OriginalCost = p\<rparr>) ps\<rparr>"

definition rejected :: "string \<Rightarrow> GetPayAsYouGoPriceResponse reply" where
  "rejected code = Decoded \<lparr>Success = False, Code = code, ModuleDetails = []\<rparr>"

text \<open>A provider of which only the price requests matter.\<close>

definition priceOnly :: "(string list \<Rightarrow> GetPayAsYouGoPriceResponse reply) \<Rightarrow> unit CommonDescriber" where
  "priceOnly price = staticProvider (Decoded []) (Decoded []) (\<lambda>t. Decoded []) price"

text \<open>The error that \<^verbatim>\<open>getPrice\<close> makes of a response refused with the code \<^verbatim>\<open>InvalidParameter\<close>.\<close>

definition invalidParameter :: error where
  "invalidParameter = \<lparr>errMessage = ''failed to get price'', errContext = [''InvalidParameter'']\<rparr>"

text \<open>A provider that answers every price request with a single price.\<close>

definition shortProvider :: "unit CommonDescriber" where
  "shortProvider = priceOnly (\<lambda>ts. priced [1])"

text \<open>A provider that refuses a request for several instance types and answers a request for one with success and no price.\<close>

definition emptyProvider :: "unit CommonDescriber" where
  "emptyProvider = priceOnly (\<lambda>ts. if length ts > 1 then rejected ''InvalidParameter'' else priced [])"

text \<open>A provider that refuses every price request.\<close>

definition rejectingProvider :: "unit CommonDescriber" where
  "rejectingProvider = priceOnly (\<lambda>ts. rejected ''InvalidParameter'')"

text \<open>A provider that refuses a request for several instance types and the request for \<^verbatim>\<open>b\<close>, and prices every other instance type at 3.\<close>

definition pickyProvider :: "unit CommonDescriber" where
  "pickyProvider = priceOnly (\<lambda>ts. if length ts > 1 \<or> ts = [''b''] then rejected ''InvalidParameter''
                                     else priced (map (\<lambda>t. 3) ts))"

text \<open>
  Twenty-six instance types, and a provider that prices a request for exactly 25 of them
  and refuses any other request.
\<close>

definition alphabet :: "string list" where
  "alphabet = [''a'', ''b'', ''c'', ''d'', ''e'', ''f'', ''g'', ''h'', ''i'', ''j'', ''k'', ''l'', ''m'',
               ''n'', ''o'', ''p'', ''q'', ''r'', ''s'', ''t'', ''u'', ''v'', ''w'', ''x'', ''y'', ''z'']"

definition bulkProvider :: "unit CommonDescriber" where
  "bulkProvider = priceOnly (\<lambda>ts. if length ts = 25 then priced (map (\<lambda>t. 3) ts)
                                    else rejected ''InvalidParameter'')"

text \<open>
  Helpers for the examples: a network mapper that knows one performance string and
  returns the empty string with an error for any other, as a Go function returning
  \<^verbatim>\<open>("", err)\<close> does.
\<close>

definition exampleHelpers :: helpers where
  "exampleHelpers =
     \<lparr>MapNetworkPerf = (\<lambda>ntwPerf. if ntwPerf = ''1.0 Gbit/s'' then (''medium'', None)
                                  else ('''', Some (emperrorWrap (errorsNew ntwPerf)
                                                     ''could not determine network performance''))),
      mapCategory = (\<lambda>instanceTypeId. (''General purpose'', None)),
      formatNtwPerf = (\<lambda>rx. if rx = 1024000 then ''1.0 Gbit/s'' else ''7.5 Gbit/s''),
      SprintInt = (\<lambda>i. if i = 2 then ''2'' else ''4''),
      SprintFloat = (\<lambda>x. if x = 4 then ''4'' else ''8''),
      cloudinfoAttributes = (\<lambda>cpu mem ntwPerfCat category.
         [''cpu'' \<mapsto> cpu, ''memory'' \<mapsto> mem, ''networkPerfCategory'' \<mapsto> ntwPerfCat,
          ''instanceTypeCategory'' \<mapsto> category])\<rparr>"

text \<open>
  A region of two zones and three instance types: \<^verbatim>\<open>t2\<close> is in no zone's resources,
  \<^verbatim>\<open>t3\<close> has a bandwidth that the mapper does not know.
\<close>

definition exampleZones :: "Zone list" where
  "exampleZones =
     [\<lparr>ZoneId = ''z1'', AvailableInstanceTypes = [''t1'', ''t2'', ''t3''],
       AvailableResources = [\<lparr>SupportedInstanceType = [''t1'', ''t3'']\<rparr>]\<rparr>,
      \<lparr>ZoneId = ''z2'', AvailableInstanceTypes = [''t1''],
       AvailableResources = [\<lparr>SupportedInstanceType = [''t1'']\<rparr>]\<rparr>]"

definition exampleType :: "string \<Rightarrow> int \<Rightarrow> InstanceType" where
  "exampleType t rx =
     \<lparr>InstanceTypeId = t, InstanceBandwidthRx = rx, CpuCoreCount = 2, MemorySize = 4, GPUAmount = 0\<rparr>"

definition exampleTypes :: "InstanceType list" where
  "exampleTypes = [exampleType ''t1'' 1024000, exampleType ''t2'' 1024000, exampleType ''t3'' 7680000]"

text \<open>Spot price histories: the request for \<^verbatim>\<open>t2\<close> fails.\<close>

definition exampleSpot :: "string \<Rightarrow> SpotPriceType list reply" where
  "exampleSpot t =
     (if t = ''t1'' then Decoded [\<lparr>SpotPriceType_ZoneId = ''z2'', SpotPriceType_SpotPrice = 5\<rparr>,
                                 \<lparr>SpotPriceType_ZoneId = ''z1'', SpotPriceType_SpotPrice = 3\<rparr>]
      else if t = ''t2'' then RequestFailed (errorsNew ''Throttling'')
      else Decoded [\<lparr>SpotPriceType_ZoneId = ''z1'', SpotPriceType_SpotPrice = 4\<rparr>])"

definition catalogProvider :: "unit CommonDescriber" where
  "catalogProvider =
     staticProvider (Decoded exampleZones) (Decoded exampleTypes) exampleSpot
       (\<lambda>ts. priced (map (\<lambda>t. 2) ts))"

text \<open>The same region, with price histories that cannot be decoded.\<close>

definition garbledProvider :: "unit CommonDescriber" where
  "garbledProvider =
     staticProvider (Decoded exampleZones) (Decoded exampleTypes)
       (\<lambda>t. Undecodable (errorsNew ''unexpected end of JSON input''))
       (\<lambda>ts. priced (map (\<lambda>t. 2) ts))"

text \<open>A provider of which every request fails.\<close>

definition downProvider :: "unit CommonDescriber" where
  "downProvider =
     staticProvider (RequestFailed (errorsNew ''ServiceUnavailable''))
       (RequestFailed (errorsNew ''ServiceUnavailable''))
       (\<lambda>t. RequestFailed (errorsNew ''ServiceUnavailable''))
       (\<lambda>ts. RequestFailed (errorsNew ''ServiceUnavailable''))"

section \<open>Properties of the operations\<close>

lemmas example_defs = world0_def exampleVM_def staticProvider_def priced_def rejected_def priceOnly_def
  invalidParameter_def
lemmas price_defs = getOnDemandPrice_def fetchPrices_def priceBatch_def priceRequest_def getPrice_def
  errorsNew_def emperrorWith_def withPrice_def priceOf_def

lemmas catalog_defs = catalogProvider_def exampleSpot_def exampleTypes_def exampleType_def
  exampleZones_def exampleHelpers_def
lemmas vm_defs = GetVirtualMachines_def getInstanceTypes_def getZones_def describeVM_def Let_def
lemmas spot_defs = getCurrentSpotPrices_def getZones_def spotPriceRequest_def Let_def

subsection \<open>Zones of an instance type\<close>

lemma supportedLoop_eq:
  "supportedLoop xs i z zones = zones @ (if i \<in> set xs then [z] else [])"
  by (induction xs) auto

lemma resourcesLoop_eq:
  "resourcesLoop ris i z zones =
     zones @ concat (map (\<lambda>ri. if i \<in> set (SupportedInstanceType ri) then [z] else []) ris)"
  by (induction ris arbitrary: zones) (simp_all add: supportedLoop_eq)

lemma zonesLoop_eq:
  "zonesLoop zs i zones =
     zones @ concat (map (\<lambda>zone. concat (map (\<lambda>ri. if i \<in> set (SupportedInstanceType ri) then [ZoneId zone] else [])
                                            (AvailableResources zone))) zs)"
  by (induction zs arbitrary: zones) (simp_all add: resourcesLoop_eq)

lemma zonesLoop_nonempty_iff:
  "zonesLoop zs i [] \<noteq> [] \<longleftrightarrow>
     (\<exists>zone \<in> set zs. \<exists>ri \<in> set (AvailableResources zone). i \<in> set (SupportedInstanceType ri))"
  by (auto simp: zonesLoop_eq)

lemma zonesLoop_set:
  "set (zonesLoop zs i []) =
     {ZoneId zone | zone. zone \<in> set zs \<and> (\<exists>ri \<in> set (AvailableResources zone). i \<in> set (SupportedInstanceType ri))}"
  by (auto simp: zonesLoop_eq)

lemma vmsLoop_eq:
  "vmsLoop h its zs vms =
     vms @ map (\<lambda>it. describeVM h it (zonesLoop zs (InstanceTypeId it) []))
             (filter (\<lambda>it. zonesLoop zs (InstanceTypeId it) [] \<noteq> []) its)"
  by (induction its arbitrary: vms) (simp_all add: Let_def)

lemma describeVM_fields [simp]:
  "Zones (describeVM h it zones) = zones"
  "Type (describeVM h it zones) = InstanceTypeId it"
  "NtwPerfCat (describeVM h it zones) = fst (MapNetworkPerf h (formatNtwPerf h (InstanceBandwidthRx it)))"
  by (simp_all add: describeVM_def Let_def)

lemma withPrice_fields [simp]:
  "Zones (withPrice ap vm) = Zones vm"
  "Type (withPrice ap vm) = Type vm"
  "NtwPerfCat (withPrice ap vm) = NtwPerfCat vm"
  "OnDemandPrice (withPrice ap vm) = priceOf ap (Type vm)"
  by (simp_all add: withPrice_def)

lemma getOnDemandPrice_Ok:
  "getOnDemandPrice c vms region w = (Ok vms', w') \<Longrightarrow>
     \<exists>ap. fetchPrices c vms region w = (Ok ap, w') \<and> vms' = map (withPrice ap) vms"
  by (auto simp: getOnDemandPrice_def split: prod.splits outcome.splits)

lemma GetVirtualMachines_Ok:
  assumes "GetVirtualMachines h c region w = (Ok vms, w')"
  shows "\<exists>its zs w1 w2 ap. getInstanceTypes c w = (Inr its, w1) \<and> getZones c region w1 = (Inr zs, w2)
           \<and> fetchPrices c (vmsLoop h its zs []) region w2 = (Ok ap, w')
           \<and> vms = map (withPrice ap) (vmsLoop h its zs [])"
  using assms
  by (auto simp: GetVirtualMachines_def split: prod.splits sum.splits dest!: getOnDemandPrice_Ok)

subsection \<open>Price requests\<close>

lemma batchesOf_append [simp]: "batchesOf (xs @ ys) = batchesOf xs @ batchesOf ys"
  by (induction xs rule: batchesOf.induct) simp_all

lemma retriesOf_append [simp]: "retriesOf (xs @ ys) = retriesOf xs @ retriesOf ys"
  by (induction xs rule: retriesOf.induct) simp_all

lemma retryFailed_append [simp]: "retryFailed (xs @ ys) = retryFailed xs \<union> retryFailed ys"
  by (auto simp: retryFailed_def)

lemma retryTypes_append [simp]: "retryTypes (xs @ ys) = retryTypes xs \<union> retryTypes ys"
  by (auto simp: retryTypes_def)

lemma retryFailed_subset: "retryFailed evs \<subseteq> retryTypes evs"
  by (auto simp: retryFailed_def retryTypes_def)

lemma onePricePerType_append [simp]:
  "onePricePerType (xs @ ys) \<longleftrightarrow> onePricePerType xs \<and> onePricePerType ys"
  by (auto simp: onePricePerType_def)

lemma priceRequest_trace:
  "priceRequest c st ts region w = (r, w') \<Longrightarrow> trace w' = trace w @ [PriceCall st ts r]"
  by (auto simp: priceRequest_def split: prod.splits)

text \<open>The follow-up requests of a rejected batch.\<close>

lemma retryEach_not_Err: "retryEach c region ts ap w \<noteq> (Err err, w')"
  by (induction ts arbitrary: ap w) (auto split: prod.splits sum.splits list.splits)

lemma retryEach_events:
  "retryEach c region ts ap w = (out, w') \<Longrightarrow>
     \<exists>evs. trace w' = trace w @ evs \<and> batchesOf evs = [] \<and> retryTypes evs \<subseteq> set ts \<and>
           (\<forall>ev \<in> set evs. \<exists>t r. ev = PriceCall RetryRequest [t] r) \<and>
           (out = Panic \<longleftrightarrow> (\<exists>t. PriceCall RetryRequest [t] (Inr []) \<in> set evs)) \<and>
           (out \<noteq> Panic \<longrightarrow> retriesOf evs = map (\<lambda>t. [t]) ts \<and> length evs = length ts)"
proof (induction ts arbitrary: ap w)
  case Nil
  then show ?case by (auto simp: retryTypes_def)
next
  case (Cons t ts)
  obtain r w1 where pr: "priceRequest c RetryRequest [t] region w = (r, w1)"
    by (cases "priceRequest c RetryRequest [t] region w")
  note tr = priceRequest_trace [OF pr]
  show ?case
  proof (cases r)
    case (Inl err)
    with Cons.prems pr have "retryEach c region ts ap w1 = (out, w')" by simp
    from Cons.IH [OF this] obtain evs where
      evs: "trace w' = trace w1 @ evs" "batchesOf evs = []" "retryTypes evs \<subseteq> set ts"
        "\<forall>ev \<in> set evs. \<exists>t r. ev = PriceCall RetryRequest [t] r"
        "out = Panic \<longleftrightarrow> (\<exists>t. PriceCall RetryRequest [t] (Inr []) \<in> set evs)"
        "out \<noteq> Panic \<longrightarrow> retriesOf evs = map (\<lambda>t. [t]) ts \<and> length evs = length ts"
      by blast
    let ?evs = "PriceCall RetryRequest [t] r # evs"
    have "trace w' = trace w @ ?evs" using evs(1) tr by simp
    moreover have "batchesOf ?evs = []" using evs(2) by simp
    moreover have "retryTypes ?evs \<subseteq> set (t # ts)" using evs(3) by (auto simp: retryTypes_def)
    moreover have "\<forall>ev \<in> set ?evs. \<exists>t r. ev = PriceCall RetryRequest [t] r" using evs(4) by simp
    moreover have "out = Panic \<longleftrightarrow> (\<exists>t. PriceCall RetryRequest [t] (Inr []) \<in> set ?evs)"
      using evs(5) Inl by auto
    moreover have "out \<noteq> Panic \<longrightarrow> retriesOf ?evs = map (\<lambda>t. [t]) (t # ts) \<and> length ?evs = length (t # ts)"
      using evs(6) by simp
    ultimately show ?thesis by blast
  next
    case (Inr prices)
    show ?thesis
    proof (cases prices)
      case Nil
      with Cons.prems pr Inr have "out = Panic" "w' = w1" by simp_all
      then show ?thesis using tr Inr Nil
        by (intro exI [of _ "[PriceCall RetryRequest [t] r]"]) (auto simp: retryTypes_def)
    next
      case (Cons p ps)
      with Cons.prems pr Inr have "retryEach c region ts (ap(t \<mapsto> p)) w1 = (out, w')" by simp
      from Cons.IH [OF this] obtain evs where
        evs: "trace w' = trace w1 @ evs" "batchesOf evs = []" "retryTypes evs \<subseteq> set ts"
          "\<forall>ev \<in> set evs. \<exists>t r. ev = PriceCall RetryRequest [t] r"
          "out = Panic \<longleftrightarrow> (\<exists>t. PriceCall RetryRequest [t] (Inr []) \<in> set evs)"
          "out \<noteq> Panic \<longrightarrow> retriesOf evs = map (\<lambda>t. [t]) ts \<and> length evs = length ts"
        by blast
      let ?evs = "PriceCall RetryRequest [t] r # evs"
      have "trace w' = trace w @ ?evs" using evs(1) tr by simp
      moreover have "batchesOf ?evs = []" using evs(2) by simp
      moreover have "retryTypes ?evs \<subseteq> set (t # ts)" using evs(3) by (auto simp: retryTypes_def)
      moreover have "\<forall>ev \<in> set ?evs. \<exists>t r. ev = PriceCall RetryRequest [t] r" using evs(4) by simp
      moreover have "out = Panic \<longleftrightarrow> (\<exists>t. PriceCall RetryRequest [t] (Inr []) \<in> set ?evs)"
        using evs(5) Inr Cons by auto
      moreover have "out \<noteq> Panic \<longrightarrow> retriesOf ?evs = map (\<lambda>t. [t]) (t # ts) \<and> length ?evs = length (t # ts)"
        using evs(6) by simp
      ultimately show ?thesis by blast
    qed
  qed
qed

lemma retryEach_dom:
  "retryEach c region ts ap w = (Ok ap', w') \<Longrightarrow> distinct ts \<Longrightarrow>
     dom ap' = dom ap \<union> (set ts - retryFailed (newEvents w w'))"
proof (induction ts arbitrary: ap w)
  case Nil
  then show ?case by (simp add: newEvents_def retryFailed_def)
next
  case (Cons t ts)
  obtain r w1 where pr: "priceRequest c RetryRequest [t] region w = (r, w1)"
    by (cases "priceRequest c RetryRequest [t] region w")
  note tr = priceRequest_trace [OF pr]
  have rest: "\<exists>ap1. retryEach c region ts ap1 w1 = (Ok ap', w') \<and>
                (case r of Inl err \<Rightarrow> ap1 = ap | Inr prices \<Rightarrow> \<exists>p ps. prices = p # ps \<and> ap1 = ap(t \<mapsto> p))"
    using Cons.prems(1) pr by (auto split: sum.splits list.splits)
  then obtain ap1 where ap1: "retryEach c region ts ap1 w1 = (Ok ap', w')"
    and r: "case r of Inl err \<Rightarrow> ap1 = ap | Inr prices \<Rightarrow> \<exists>p ps. prices = p # ps \<and> ap1 = ap(t \<mapsto> p)"
    by blast
  from retryEach_events [OF ap1] obtain evs where
    evs: "trace w' = trace w1 @ evs" "retryTypes evs \<subseteq> set ts" by blast
  have new1: "newEvents w1 w' = evs" using evs(1) by (simp add: newEvents_def)
  have new: "newEvents w w' = PriceCall RetryRequest [t] r # evs"
    using evs(1) tr by (simp add: newEvents_def)
  from Cons.prems(2) have d: "distinct ts" and nt: "t \<notin> set ts" by simp_all
  have IH: "dom ap' = dom ap1 \<union> (set ts - retryFailed evs)"
    using Cons.IH [OF ap1 d] new1 by simp
  have tnot: "t \<notin> retryFailed evs" using evs(2) nt retryFailed_subset [of evs] by blast
  show ?case
  proof (cases r)
    case (Inl err)
    then have "ap1 = ap" using r by simp
    moreover have "retryFailed (PriceCall RetryRequest [t] r # evs) = insert t (retryFailed evs)"
      using Inl by (auto simp: retryFailed_def)
    ultimately show ?thesis using IH new nt by auto
  next
    case (Inr prices)
    then obtain p ps where "ap1 = ap(t \<mapsto> p)" using r by auto
    moreover have "retryFailed (PriceCall RetryRequest [t] r # evs) = retryFailed evs"
      using Inr by (auto simp: retryFailed_def)
    ultimately show ?thesis using IH new tnot by auto
  qed
qed

lemma assignPrices_dom:
  "assignPrices ts prices ap = Some ap' \<Longrightarrow> dom ap' = dom ap \<union> set (take (length prices) ts)"
  by (induction ts prices ap rule: assignPrices.induct) auto

lemma assignPrices_None_iff:
  "assignPrices ts prices ap = None \<longleftrightarrow> length ts < length prices"
  by (induction ts prices ap rule: assignPrices.induct) (simp_all add: fun_upd_def)

text \<open>One batch.\<close>

lemma priceBatch_events:
  "priceBatch c region b ap w = (out, w') \<Longrightarrow>
     \<exists>r evs. trace w' = trace w @ PriceCall BatchRequest b r # evs \<and> batchesOf evs = [] \<and>
             retryTypes evs \<subseteq> set b \<and> (\<forall>ev \<in> set evs. \<exists>t r. ev = PriceCall RetryRequest [t] r)"
proof -
  assume a: "priceBatch c region b ap w = (out, w')"
  obtain r w1 where pr: "priceRequest c BatchRequest b region w = (r, w1)"
    by (cases "priceRequest c BatchRequest b region w")
  note tr = priceRequest_trace [OF pr]
  show ?thesis
  proof (cases "\<exists>err. r = Inl err \<and> errMessage err = ''failed to get price'' \<and>
                       hasLabel (errContext err) ''InvalidParameter''")
    case True
    then have "retryEach c region b ap w1 = (out, w')"
      using a pr by (auto simp: priceBatch_def)
    from retryEach_events [OF this] tr show ?thesis by auto
  next
    case False
    then have "w' = w1" using a pr
      by (auto simp: priceBatch_def split: sum.splits option.splits if_splits)
    then show ?thesis using tr by (intro exI [of _ r] exI [of _ "[]"]) (simp add: retryTypes_def)
  qed
qed

lemma priceBatch_dom:
  assumes "priceBatch c region b ap w = (Ok ap', w')" and "distinct b"
    and "onePricePerType (newEvents w w')"
  shows "dom ap' = dom ap \<union> (set b - retryFailed (newEvents w w'))"
proof -
  obtain r w1 where pr: "priceRequest c BatchRequest b region w = (r, w1)"
    by (cases "priceRequest c BatchRequest b region w")
  note tr = priceRequest_trace [OF pr]
  show ?thesis
  proof (cases r)
    case (Inl err)
    then have re: "retryEach c region b ap w1 = (Ok ap', w')"
      using assms(1) pr by (auto simp: priceBatch_def split: if_splits)
    from retryEach_events [OF re] obtain evs where evs: "trace w' = trace w1 @ evs" by blast
    have "newEvents w w' = PriceCall BatchRequest b r # newEvents w1 w'"
      using evs tr by (simp add: newEvents_def)
    then have "retryFailed (newEvents w w') = retryFailed (newEvents w1 w')"
      by (auto simp: retryFailed_def)
    then show ?thesis using retryEach_dom [OF re assms(2)] by simp
  next
    case (Inr prices)
    then have as: "assignPrices b prices ap = Some ap'" and w': "w' = w1"
      using assms(1) pr by (auto simp: priceBatch_def split: option.splits)
    have new: "newEvents w w' = [PriceCall BatchRequest b (Inr prices)]"
      using tr w' Inr by (simp add: newEvents_def)
    then have "length prices = length b" using assms(3) by (simp add: onePricePerType_def)
    moreover have "retryFailed (newEvents w w') = {}" using new by (simp add: retryFailed_def)
    ultimately show ?thesis using assignPrices_dom [OF as] by simp
  qed
qed

lemma priceBatch_dom_subset:
  assumes "priceBatch c region b ap w = (Ok ap', w')" and "distinct b"
  shows "dom ap' \<subseteq> dom ap \<union> (set b - retryFailed (newEvents w w'))"
proof -
  obtain r w1 where pr: "priceRequest c BatchRequest b region w = (r, w1)"
    by (cases "priceRequest c BatchRequest b region w")
  note tr = priceRequest_trace [OF pr]
  show ?thesis
  proof (cases r)
    case (Inl err)
    then have re: "retryEach c region b ap w1 = (Ok ap', w')"
      using assms(1) pr by (auto simp: priceBatch_def split: if_splits)
    from retryEach_events [OF re] obtain evs where evs: "trace w' = trace w1 @ evs" by blast
    have "newEvents w w' = PriceCall BatchRequest b r # newEvents w1 w'"
      using evs tr by (simp add: newEvents_def)
    then have "retryFailed (newEvents w w') = retryFailed (newEvents w1 w')"
      by (auto simp: retryFailed_def)
    then show ?thesis using retryEach_dom [OF re assms(2)] by simp
  next
    case (Inr prices)
    then have as: "assignPrices b prices ap = Some ap'" and w': "w' = w1"
      using assms(1) pr by (auto simp: priceBatch_def split: option.splits)
    have new: "newEvents w w' = [PriceCall BatchRequest b (Inr prices)]"
      using tr w' Inr by (simp add: newEvents_def)
    have "retryFailed (newEvents w w') = {}" using new by (simp add: retryFailed_def)
    moreover have "set (take (length prices) b) \<subseteq> set b" by (rule set_take_subset)
    ultimately show ?thesis using assignPrices_dom [OF as] by auto
  qed
qed

lemma retryTypes_batch_event [simp]:
  "retryTypes (PriceCall BatchRequest b r # evs) = retryTypes evs"
  by (auto simp: retryTypes_def)

lemma concat_nonempty_Nil:
  "concat B = [] \<Longrightarrow> \<forall>b \<in> set B. 0 < length b \<Longrightarrow> B = []"
  by (cases B) auto

lemma dom_two_batches:
  "D1 = D0 \<union> (B - R1) \<Longrightarrow> D2 = D1 \<union> (S - R2) \<Longrightarrow> R1 \<subseteq> B \<Longrightarrow> R2 \<subseteq> S \<Longrightarrow> B \<inter> S = {}
     \<Longrightarrow> D2 = D0 \<union> ((B \<union> S) - (R1 \<union> R2))"
  by auto

lemma dom_two_batches_subset:
  "D1 \<subseteq> D0 \<union> (B - R1) \<Longrightarrow> D2 \<subseteq> D1 \<union> (S - R2) \<Longrightarrow> R1 \<subseteq> B \<Longrightarrow> R2 \<subseteq> S \<Longrightarrow> B \<inter> S = {}
     \<Longrightarrow> D2 \<subseteq> D0 \<union> ((B \<union> S) - (R1 \<union> R2))"
  by blast

lemma priceLoop_Ok:
  assumes "priceLoop c region n index vms acc ap w = (Ok ap', w')"
    and "index + length vms = n" and "length acc < 25" and "vms = [] \<longrightarrow> acc = []"
  shows "\<exists>evs. trace w' = trace w @ evs \<and>
           concat (batchesOf evs) = acc @ map Type vms \<and>
           (\<forall>b \<in> set (batchesOf evs). 0 < length b \<and> length b \<le> 25) \<and>
           (\<forall>b \<in> set (butlast (batchesOf evs)). length b = 25) \<and>
           retryTypes evs \<subseteq> set (acc @ map Type vms) \<and>
           (distinct (acc @ map Type vms) \<longrightarrow>
              dom ap' \<subseteq> dom ap \<union> (set (acc @ map Type vms) - retryFailed evs)) \<and>
           (distinct (acc @ map Type vms) \<longrightarrow> onePricePerType evs \<longrightarrow>
              dom ap' = dom ap \<union> (set (acc @ map Type vms) - retryFailed evs))"
  using assms
proof (induction vms arbitrary: index acc ap w)
  case Nil
  then show ?case by (simp add: retryTypes_def retryFailed_def)
next
  case (Cons vm rest)
  let ?b = "acc @ [Type vm]"
  show ?case
  proof (cases "length ?b = 25 \<or> index + 1 = n")
    case True
    from Cons.prems(1) True obtain ap1 w1 where
      pb: "priceBatch c region ?b ap w = (Ok ap1, w1)" and
      pl: "priceLoop c region n (index + 1) rest [] ap1 w1 = (Ok ap', w')"
      by (auto split: prod.splits outcome.splits)
    from priceBatch_events [OF pb] obtain r evs1 where
      e1: "trace w1 = trace w @ PriceCall BatchRequest ?b r # evs1" "batchesOf evs1 = []"
          "retryTypes evs1 \<subseteq> set ?b" by blast
    let ?E1 = "PriceCall BatchRequest ?b r # evs1"
    have new1: "newEvents w w1 = ?E1" using e1(1) by (simp add: newEvents_def)
    have "index + 1 + length rest = n" using Cons.prems(2) by simp
    from Cons.IH [OF pl this] obtain evs2 where
      e2: "trace w' = trace w1 @ evs2" "concat (batchesOf evs2) = map Type rest"
        "\<forall>b \<in> set (batchesOf evs2). 0 < length b \<and> length b \<le> 25"
        "\<forall>b \<in> set (butlast (batchesOf evs2)). length b = 25"
        "retryTypes evs2 \<subseteq> set (map Type rest)"
        "distinct (map Type rest) \<longrightarrow>
           dom ap' \<subseteq> dom ap1 \<union> (set (map Type rest) - retryFailed evs2)"
        "distinct (map Type rest) \<longrightarrow> onePricePerType evs2 \<longrightarrow>
           dom ap' = dom ap1 \<union> (set (map Type rest) - retryFailed evs2)"
      by auto
    let ?evs = "?E1 @ evs2"
    have B: "batchesOf ?evs = ?b # batchesOf evs2" using e1(2) by simp
    have t: "trace w' = trace w @ ?evs" using e1(1) e2(1) by simp
    have c: "concat (batchesOf ?evs) = acc @ map Type (vm # rest)" using B e2(2) by simp
    have lenb: "0 < length ?b \<and> length ?b \<le> 25" using Cons.prems(3) by simp
    have l: "\<forall>b \<in> set (batchesOf ?evs). 0 < length b \<and> length b \<le> 25"
      using B e2(3) lenb by simp
    have bl: "\<forall>b \<in> set (butlast (batchesOf ?evs)). length b = 25"
    proof (cases "batchesOf evs2 = []")
      case True
      then show ?thesis using B by simp
    next
      case False
      have "rest \<noteq> []"
      proof
        assume "rest = []"
        then have "concat (batchesOf evs2) = []" using e2(2) by simp
        moreover have "\<forall>b \<in> set (batchesOf evs2). 0 < length b" using e2(3) by blast
        ultimately have "batchesOf evs2 = []" by (rule concat_nonempty_Nil)
        with False show False by simp
      qed
      then have "index + 1 \<noteq> n" using Cons.prems(2) by auto
      with True have "length ?b = 25" by blast
      then show ?thesis using B e2(4) False by simp
    qed
    have rt: "retryTypes ?evs \<subseteq> set (acc @ map Type (vm # rest))"
      using e1(3) e2(5) by auto
    have r1: "retryFailed ?E1 \<subseteq> set ?b"
      using retryFailed_subset [of ?E1] e1(3) by auto
    have r2: "retryFailed evs2 \<subseteq> set (map Type rest)"
      using retryFailed_subset [of evs2] e2(5) by auto
    have s: "set (acc @ map Type (vm # rest)) = set ?b \<union> set (map Type rest)" by auto
    have rf: "retryFailed ?evs = retryFailed ?E1 \<union> retryFailed evs2"
      by (rule retryFailed_append)
    have ds: "distinct (acc @ map Type (vm # rest)) \<longrightarrow>
                dom ap' \<subseteq> dom ap \<union> (set (acc @ map Type (vm # rest)) - retryFailed ?evs)"
    proof
      assume dist: "distinct (acc @ map Type (vm # rest))"
      have db: "distinct ?b" and dr: "distinct (map Type rest)"
        and disj: "set ?b \<inter> set (map Type rest) = {}"
        using dist by auto
      have d1: "dom ap1 \<subseteq> dom ap \<union> (set ?b - retryFailed ?E1)"
        using priceBatch_dom_subset [OF pb db] new1 by simp
      have d2: "dom ap' \<subseteq> dom ap1 \<union> (set (map Type rest) - retryFailed evs2)"
        using e2(6) dr by blast
      show "dom ap' \<subseteq> dom ap \<union> (set (acc @ map Type (vm # rest)) - retryFailed ?evs)"
        unfolding s rf by (rule dom_two_batches_subset [OF d1 d2 r1 r2 disj])
    qed
    have d: "dom ap' = dom ap \<union> (set (acc @ map Type (vm # rest)) - retryFailed ?evs)"
      if dist: "distinct (acc @ map Type (vm # rest))" and one: "onePricePerType ?evs"
    proof -
      have db: "distinct ?b" and dr: "distinct (map Type rest)"
        and disj: "set ?b \<inter> set (map Type rest) = {}"
        using dist by auto
      have o1: "onePricePerType ?E1" and o2: "onePricePerType evs2"
        using one onePricePerType_append [of ?E1 evs2] by blast+
      have d1: "dom ap1 = dom ap \<union> (set ?b - retryFailed ?E1)"
        using priceBatch_dom [OF pb db] o1 new1 by simp
      have d2: "dom ap' = dom ap1 \<union> (set (map Type rest) - retryFailed evs2)"
        using e2(7) dr o2 by blast
      show ?thesis unfolding s rf by (rule dom_two_batches [OF d1 d2 r1 r2 disj])
    qed
    have d': "distinct (acc @ map Type (vm # rest)) \<longrightarrow> onePricePerType ?evs \<longrightarrow>
                dom ap' = dom ap \<union> (set (acc @ map Type (vm # rest)) - retryFailed ?evs)"
      using d by blast
    show ?thesis
      by (rule exI [of _ ?evs]) (intro conjI t c l bl rt ds d')
  next
    case False
    then have pl: "priceLoop c region n (index + 1) rest ?b ap w = (Ok ap', w')"
      using Cons.prems(1) by simp
    have 1: "index + 1 + length rest = n" using Cons.prems(2) by simp
    have 2: "length ?b < 25" using Cons.prems(3) False by simp
    have 3: "rest = [] \<longrightarrow> ?b = []" using False Cons.prems(2) by auto
    from Cons.IH [OF pl 1 2 3] show ?thesis by simp
  qed
qed

lemma fetchPrices_Ok:
  assumes "fetchPrices c vms region w = (Ok ap, w')"
  shows "concat (batchesOf (newEvents w w')) = map Type vms \<and>
         (\<forall>b \<in> set (batchesOf (newEvents w w')). 0 < length b \<and> length b \<le> 25) \<and>
         (\<forall>b \<in> set (butlast (batchesOf (newEvents w w'))). length b = 25) \<and>
         retryTypes (newEvents w w') \<subseteq> set (map Type vms) \<and>
         (distinct (map Type vms) \<longrightarrow> dom ap \<subseteq> set (map Type vms) - retryFailed (newEvents w w')) \<and>
         (distinct (map Type vms) \<longrightarrow> onePricePerType (newEvents w w') \<longrightarrow>
            dom ap = set (map Type vms) - retryFailed (newEvents w w'))"
proof -
  have pl: "priceLoop c region (length vms) 0 vms [] Map.empty w = (Ok ap, w')"
    using assms by (simp add: fetchPrices_def)
  from priceLoop_Ok [OF pl] obtain evs where
    evs: "trace w' = trace w @ evs" and
    rest: "concat (batchesOf evs) = [] @ map Type vms \<and>
           (\<forall>b \<in> set (batchesOf evs). 0 < length b \<and> length b \<le> 25) \<and>
           (\<forall>b \<in> set (butlast (batchesOf evs)). length b = 25) \<and>
           retryTypes evs \<subseteq> set ([] @ map Type vms) \<and>
           (distinct ([] @ map Type vms) \<longrightarrow>
              dom ap \<subseteq> dom (Map.empty :: string \<rightharpoonup> float64) \<union> (set ([] @ map Type vms) - retryFailed evs)) \<and>
           (distinct ([] @ map Type vms) \<longrightarrow> onePricePerType evs \<longrightarrow>
              dom ap = dom (Map.empty :: string \<rightharpoonup> float64) \<union> (set ([] @ map Type vms) - retryFailed evs))"
    by auto
  have "newEvents w w' = evs" using evs by (simp add: newEvents_def)
  then show ?thesis using rest by simp
qed

lemma getPrice_empty_iff:
  "getPrice c ts region s = (Inr [], s') \<longleftrightarrow>
     (\<exists>response. GetPayAsYouGoPrice c s region ts = (Decoded response, s') \<and>
                 Success response \<and> ModuleDetails response = [])"
  by (auto simp: getPrice_def split: prod.splits reply.splits if_splits)

text \<open>A refused batch that does not panic gets one follow-up request for each member, in order; any other error of a batch request ends the loop at once.\<close>

lemma priceBatch_rejected_retries:
  assumes "priceRequest c BatchRequest b region w = (Inl err, w1)"
    and "errMessage err = ''failed to get price''" and "hasLabel (errContext err) ''InvalidParameter''"
    and "priceBatch c region b ap w = (out, w')" and "out \<noteq> Panic"
  shows "(\<exists>ap'. out = Ok ap') \<and> retriesOf (newEvents w1 w') = map (\<lambda>t. [t]) b \<and>
         length (newEvents w1 w') = length b \<and> batchesOf (newEvents w1 w') = []"
proof -
  have re: "retryEach c region b ap w1 = (out, w')"
    using assms by (simp add: priceBatch_def)
  from retryEach_events [OF re] obtain evs where
    evs: "trace w' = trace w1 @ evs" "batchesOf evs = []"
      "out \<noteq> Panic \<longrightarrow> retriesOf evs = map (\<lambda>t. [t]) b \<and> length evs = length b" by blast
  have new: "newEvents w1 w' = evs" using evs(1) by (simp add: newEvents_def)
  have "\<exists>ap'. out = Ok ap'"
    using assms(5) retryEach_not_Err [of c region b ap w1 _ w'] re by (cases out) auto
  then show ?thesis using evs(2,3) assms(5) new by simp
qed

lemma priceBatch_other_error:
  assumes "priceRequest c BatchRequest b region w = (Inl err, w1)"
    and "\<not> (errMessage err = ''failed to get price'' \<and> hasLabel (errContext err) ''InvalidParameter'')"
  shows "priceBatch c region b ap w = (Err err, w1)"
  using assms by (auto simp: priceBatch_def)

lemma priceLoop_abort:
  assumes "priceBatch c region (acc @ [Type vm]) ap w = (Err err, w1)"
    and "length (acc @ [Type vm]) = 25 \<or> index + 1 = n"
  shows "priceLoop c region n index (vm # vms) acc ap w = (Err err, w1)"
  using assms by auto

text \<open>The price requests depend on the instance types of the descriptors alone.\<close>

lemma priceLoop_types_only:
  "map Type vms = map Type vms' \<Longrightarrow>
     priceLoop c region n index vms acc ap w = priceLoop c region n index vms' acc ap w"
proof (induction vms arbitrary: vms' index acc ap w)
  case Nil
  then show ?case by simp
next
  case (Cons vm rest)
  then obtain vm' rest' where v: "vms' = vm' # rest'" "Type vm = Type vm'" "map Type rest = map Type rest'"
    by (cases vms') auto
  have IH: "priceLoop c region n i rest a p x = priceLoop c region n i rest' a p x" for i a p x
    by (rule Cons.IH [OF v(3)])
  show ?case unfolding v(1) priceLoop.simps v(2) IH ..
qed

lemma getOnDemandPrice_types_only:
  assumes "map Type vms = map Type vms'"
  shows "map_outcome (map Type) (fst (getOnDemandPrice c vms region w)) =
           map_outcome (map Type) (fst (getOnDemandPrice c vms' region w)) \<and>
         snd (getOnDemandPrice c vms region w) = snd (getOnDemandPrice c vms' region w)"
proof -
  have "length vms = length vms'" using assms by (rule map_eq_imp_length_eq)
  then have f: "fetchPrices c vms region w = fetchPrices c vms' region w"
    using priceLoop_types_only [OF assms] by (simp add: fetchPrices_def)
  show ?thesis
    unfolding getOnDemandPrice_def f using assms
    by (cases "fetchPrices c vms' region w") (auto split: outcome.splits simp: comp_def)
qed

lemma vmsLoop_types:
  "map Type (vmsLoop h its zs []) =
     map InstanceTypeId (filter (\<lambda>it. zonesLoop zs (InstanceTypeId it) [] \<noteq> []) its)"
  by (simp add: vmsLoop_eq comp_def)

lemma describeVM_NtwPerf [simp]:
  "NtwPerf (describeVM h it zones) = formatNtwPerf h (InstanceBandwidthRx it)"
  by (simp add: describeVM_def Let_def)

lemma withPrice_NtwPerf [simp]: "NtwPerf (withPrice ap vm) = NtwPerf vm"
  by (simp add: withPrice_def)

subsection \<open>Spot price requests\<close>

lemma spotCalls_simps [simp]:
  "spotCalls [] = {}"
  "spotCalls (SpotPriceHistoryCall z t r # evs) = insert (z, t) (spotCalls evs)"
  "spotCalls (ZonesCall zr # evs) = spotCalls evs"
  "spotCalls (xs @ ys) = spotCalls xs \<union> spotCalls ys"
  by (auto simp: spotCalls_def)

lemma spotRequested_simps [simp]:
  "spotRequested [] = {}"
  "spotRequested (SpotPriceHistoryCall z t r # evs) = insert t (spotRequested evs)"
  "spotRequested (ZonesCall zr # evs) = spotRequested evs"
  "spotRequested (xs @ ys) = spotRequested xs \<union> spotRequested ys"
  by (auto simp: spotRequested_def)

lemma spotUndecodable_simps [simp]:
  "spotUndecodable [] = False"
  "spotUndecodable (SpotPriceHistoryCall z t (Undecodable err) # evs) = True"
  "spotUndecodable (SpotPriceHistoryCall z t (RequestFailed err) # evs) = spotUndecodable evs"
  "spotUndecodable (SpotPriceHistoryCall z t (Decoded pts) # evs) = spotUndecodable evs"
  "spotUndecodable (ZonesCall zr # evs) = spotUndecodable evs"
  "spotUndecodable (xs @ ys) = (spotUndecodable xs \<or> spotUndecodable ys)"
  by (auto simp: spotUndecodable_def)

lemma spotStored_simps [simp]:
  "spotStored [] t sp = False"
  "spotStored (SpotPriceHistoryCall z t' (RequestFailed err) # evs) t sp = spotStored evs t sp"
  "spotStored (SpotPriceHistoryCall z t' (Undecodable err) # evs) t sp = spotStored evs t sp"
  "spotStored (SpotPriceHistoryCall z t' (Decoded pts) # evs) t sp =
     ((t = t' \<and> priceTypesLoop z pts Map.empty False = (sp, True)) \<or> spotStored evs t sp)"
  "spotStored (ZonesCall zr # evs) t sp = spotStored evs t sp"
  "spotStored (xs @ ys) t sp = (spotStored xs t sp \<or> spotStored ys t sp)"
  by (auto simp: spotStored_def)

lemma spotStored_requested: "spotStored evs t sp \<Longrightarrow> t \<in> spotRequested evs"
  by (auto simp: spotStored_def spotRequested_def)

text \<open>
  Lines 99 to 105 in closed form: the content is the price of the first item of the
  visited zone, if there is one, and the store is done exactly when the history is not
  empty and its first item is of another zone.
\<close>

lemma priceTypesLoop_eq:
  "priceTypesLoop z pts sp0 stored =
     (case find (\<lambda>pt. SpotPriceType_ZoneId pt = z) pts of
        None \<Rightarrow> sp0
      | Some pt \<Rightarrow> sp0(z \<mapsto> SpotPriceType_SpotPrice pt),
      stored \<or> (pts \<noteq> [] \<and> SpotPriceType_ZoneId (hd pts) \<noteq> z))"
  by (induction pts arbitrary: stored) auto

lemma priceTypesLoop_stored_iff:
  "priceTypesLoop z pts Map.empty False = (sp, True) \<longleftrightarrow>
     pts \<noteq> [] \<and> SpotPriceType_ZoneId (hd pts) \<noteq> z \<and>
     sp = (case find (\<lambda>pt. SpotPriceType_ZoneId pt = z) pts of
             None \<Rightarrow> Map.empty
           | Some pt \<Rightarrow> [z \<mapsto> SpotPriceType_SpotPrice pt])"
  unfolding priceTypesLoop_eq by auto

lemma spotLoopPost_Inl:
  "spotLoopPost priceInfo P (Inl err) evs \<longleftrightarrow> spotUndecodable evs \<and> spotCalls evs \<subseteq> P"
  by (simp add: spotLoopPost_def)

lemma spotLoopPost_Inr:
  "spotLoopPost priceInfo P (Inr priceInfo') evs \<longleftrightarrow>
     \<not> spotUndecodable evs \<and> spotCalls evs \<subseteq> P \<and>
     spotRequested evs \<inter> dom priceInfo = {} \<and>
     snd ` P \<subseteq> dom priceInfo \<union> spotRequested evs \<and>
     (\<forall>t sp. priceInfo' t = Some sp \<longleftrightarrow> priceInfo t = Some sp \<or> spotStored evs t sp)"
  by (simp add: spotLoopPost_def)

lemma spotLoopPost_done: "spotLoopPost priceInfo {} (Inr priceInfo) []"
  by (simp add: spotLoopPost_Inr)

lemma spotLoopPost_skip:
  assumes "t \<in> dom priceInfo" and "spotLoopPost priceInfo P res evs"
  shows "spotLoopPost priceInfo (insert (z, t) P) res evs"
proof (cases res)
  case (Inl err)
  then show ?thesis using assms(2) unfolding Inl spotLoopPost_Inl by blast
next
  case (Inr p)
  from assms(2) have f: "\<not> spotUndecodable evs" "spotCalls evs \<subseteq> P"
    "spotRequested evs \<inter> dom priceInfo = {}" "snd ` P \<subseteq> dom priceInfo \<union> spotRequested evs"
    "\<forall>t sp. p t = Some sp \<longleftrightarrow> priceInfo t = Some sp \<or> spotStored evs t sp"
    unfolding Inr spotLoopPost_Inr by blast+
  have "spotCalls evs \<subseteq> insert (z, t) P" using f(2) by blast
  moreover have "snd ` insert (z, t) P \<subseteq> dom priceInfo \<union> spotRequested evs"
    using f(4) assms(1) by auto
  ultimately show ?thesis unfolding Inr spotLoopPost_Inr using f(1,3,5) by blast
qed

lemma spotLoopPost_failed:
  assumes "priceInfo t = None" and "spotLoopPost priceInfo P res evs"
  shows "spotLoopPost priceInfo (insert (z, t) P) res (SpotPriceHistoryCall z t (RequestFailed err) # evs)"
proof (cases res)
  case (Inl e)
  then show ?thesis using assms(2) unfolding Inl spotLoopPost_Inl spotUndecodable_simps spotCalls_simps
    by blast
next
  case (Inr p)
  from assms(2) have f: "\<not> spotUndecodable evs" "spotCalls evs \<subseteq> P"
    "spotRequested evs \<inter> dom priceInfo = {}" "snd ` P \<subseteq> dom priceInfo \<union> spotRequested evs"
    "\<forall>t sp. p t = Some sp \<longleftrightarrow> priceInfo t = Some sp \<or> spotStored evs t sp"
    unfolding Inr spotLoopPost_Inr by blast+
  have nt: "t \<notin> dom priceInfo" using assms(1) by auto
  have 1: "insert (z, t) (spotCalls evs) \<subseteq> insert (z, t) P" using f(2) by blast
  have 2: "insert t (spotRequested evs) \<inter> dom priceInfo = {}" using f(3) nt by blast
  have 3: "snd ` insert (z, t) P \<subseteq> dom priceInfo \<union> insert t (spotRequested evs)"
    using f(4) by auto
  show ?thesis
    unfolding Inr spotLoopPost_Inr spotUndecodable_simps spotCalls_simps spotRequested_simps
      spotStored_simps
    by (intro conjI f(1) 1 2 3 f(5))
qed

lemma spotLoopPost_unstored:
  assumes "priceInfo t = None" and "spotLoopPost priceInfo P res evs"
    and "priceTypesLoop z pts Map.empty False = (sp0, False)"
  shows "spotLoopPost priceInfo (insert (z, t) P) res (SpotPriceHistoryCall z t (Decoded pts) # evs)"
proof (cases res)
  case (Inl e)
  then show ?thesis using assms(2) unfolding Inl spotLoopPost_Inl spotUndecodable_simps spotCalls_simps
    by blast
next
  case (Inr p)
  from assms(2) have f: "\<not> spotUndecodable evs" "spotCalls evs \<subseteq> P"
    "spotRequested evs \<inter> dom priceInfo = {}" "snd ` P \<subseteq> dom priceInfo \<union> spotRequested evs"
    "\<forall>t sp. p t = Some sp \<longleftrightarrow> priceInfo t = Some sp \<or> spotStored evs t sp"
    unfolding Inr spotLoopPost_Inr by blast+
  have nt: "t \<notin> dom priceInfo" using assms(1) by auto
  have 1: "insert (z, t) (spotCalls evs) \<subseteq> insert (z, t) P" using f(2) by blast
  have 2: "insert t (spotRequested evs) \<inter> dom priceInfo = {}" using f(3) nt by blast
  have 3: "snd ` insert (z, t) P \<subseteq> dom priceInfo \<union> insert t (spotRequested evs)"
    using f(4) by auto
  have 4: "\<forall>x sp. p x = Some sp \<longleftrightarrow>
             priceInfo x = Some sp \<or> (x = t \<and> priceTypesLoop z pts Map.empty False = (sp, True)) \<or>
             spotStored evs x sp"
    using f(5) assms(3) by simp
  show ?thesis
    unfolding Inr spotLoopPost_Inr spotUndecodable_simps spotCalls_simps spotRequested_simps
      spotStored_simps
    by (intro conjI f(1) 1 2 3 4)
qed

lemma spotLoopPost_stored:
  assumes "priceInfo t = None" and "spotLoopPost (priceInfo(t \<mapsto> sp0)) P res evs"
    and "priceTypesLoop z pts Map.empty False = (sp0, True)"
  shows "spotLoopPost priceInfo (insert (z, t) P) res (SpotPriceHistoryCall z t (Decoded pts) # evs)"
proof (cases res)
  case (Inl e)
  then show ?thesis using assms(2) unfolding Inl spotLoopPost_Inl spotUndecodable_simps spotCalls_simps
    by blast
next
  case (Inr p)
  from assms(2) have f: "\<not> spotUndecodable evs" "spotCalls evs \<subseteq> P"
    "spotRequested evs \<inter> dom (priceInfo(t \<mapsto> sp0)) = {}"
    "snd ` P \<subseteq> dom (priceInfo(t \<mapsto> sp0)) \<union> spotRequested evs"
    "\<forall>x sp. p x = Some sp \<longleftrightarrow> (priceInfo(t \<mapsto> sp0)) x = Some sp \<or> spotStored evs x sp"
    unfolding Inr spotLoopPost_Inr by blast+
  have nt: "t \<notin> dom priceInfo" using assms(1) by auto
  have nr: "t \<notin> spotRequested evs" using f(3) by auto
  have ns: "\<not> spotStored evs t sp" for sp using nr spotStored_requested by blast
  have 1: "insert (z, t) (spotCalls evs) \<subseteq> insert (z, t) P" using f(2) by blast
  have 2: "insert t (spotRequested evs) \<inter> dom priceInfo = {}" using f(3) nt by auto
  have 3: "snd ` insert (z, t) P \<subseteq> dom priceInfo \<union> insert t (spotRequested evs)"
    using f(4) by auto
  have 4: "p x = Some sp \<longleftrightarrow>
             priceInfo x = Some sp \<or> (x = t \<and> priceTypesLoop z pts Map.empty False = (sp, True)) \<or>
             spotStored evs x sp" for x sp
  proof (cases "x = t")
    case True
    have "p t = Some sp \<longleftrightarrow> sp0 = sp" using f(5) ns by simp
    then show ?thesis using True assms(1,3) ns by auto
  next
    case False
    then show ?thesis using f(5) by simp
  qed
  then have 4: "\<forall>x sp. p x = Some sp \<longleftrightarrow>
             priceInfo x = Some sp \<or> (x = t \<and> priceTypesLoop z pts Map.empty False = (sp, True)) \<or>
             spotStored evs x sp" by blast
  show ?thesis
    unfolding Inr spotLoopPost_Inr spotUndecodable_simps spotCalls_simps spotRequested_simps
      spotStored_simps
    by (intro conjI f(1) 1 2 3 4)
qed

lemma spotLoopPost_undecodable:
  "spotLoopPost priceInfo (insert (z, t) P) (Inl err) [SpotPriceHistoryCall z t (Undecodable err)]"
  by (simp add: spotLoopPost_Inl)

lemma spotLoopPost_abort:
  "spotLoopPost priceInfo P1 (Inl err) evs \<Longrightarrow> P1 \<subseteq> P2 \<Longrightarrow> spotLoopPost priceInfo P2 (Inl err) evs"
  unfolding spotLoopPost_Inl by blast

lemma spotLoopPost_append:
  assumes "spotLoopPost priceInfo P1 (Inr pi1) evs1" and "spotLoopPost pi1 P2 res evs2"
  shows "spotLoopPost priceInfo (P1 \<union> P2) res (evs1 @ evs2)"
proof -
  from assms(1) have f: "\<not> spotUndecodable evs1" "spotCalls evs1 \<subseteq> P1"
    "spotRequested evs1 \<inter> dom priceInfo = {}" "snd ` P1 \<subseteq> dom priceInfo \<union> spotRequested evs1"
    "\<forall>t sp. pi1 t = Some sp \<longleftrightarrow> priceInfo t = Some sp \<or> spotStored evs1 t sp"
    unfolding spotLoopPost_Inr by blast+
  have d1: "dom priceInfo \<subseteq> dom pi1" using f(5) by (auto simp: dom_def)
  have d2: "dom pi1 \<subseteq> dom priceInfo \<union> spotRequested evs1"
  proof
    fix x assume "x \<in> dom pi1"
    then obtain sp where "pi1 x = Some sp" by auto
    then have "priceInfo x = Some sp \<or> spotStored evs1 x sp" using f(5) by blast
    then show "x \<in> dom priceInfo \<union> spotRequested evs1"
      using spotStored_requested by (auto simp: dom_def)
  qed
  show ?thesis
  proof (cases res)
    case (Inl e)
    from assms(2) have g: "spotUndecodable evs2" "spotCalls evs2 \<subseteq> P2"
      unfolding Inl spotLoopPost_Inl by blast+
    show ?thesis unfolding Inl spotLoopPost_Inl spotUndecodable_simps spotCalls_simps
      using g f(2) by blast
  next
    case (Inr p)
    from assms(2) have g: "\<not> spotUndecodable evs2" "spotCalls evs2 \<subseteq> P2"
      "spotRequested evs2 \<inter> dom pi1 = {}" "snd ` P2 \<subseteq> dom pi1 \<union> spotRequested evs2"
      "\<forall>t sp. p t = Some sp \<longleftrightarrow> pi1 t = Some sp \<or> spotStored evs2 t sp"
      unfolding Inr spotLoopPost_Inr by blast+
    have 0: "\<not> (spotUndecodable evs1 \<or> spotUndecodable evs2)" using f(1) g(1) by blast
    have 1: "spotCalls evs1 \<union> spotCalls evs2 \<subseteq> P1 \<union> P2" using f(2) g(2) by blast
    have 2: "(spotRequested evs1 \<union> spotRequested evs2) \<inter> dom priceInfo = {}"
      using f(3) g(3) d1 by blast
    have 3: "snd ` (P1 \<union> P2) \<subseteq> dom priceInfo \<union> (spotRequested evs1 \<union> spotRequested evs2)"
      using f(4) g(4) d2 by blast
    have 4: "\<forall>t sp. p t = Some sp \<longleftrightarrow>
               priceInfo t = Some sp \<or> spotStored evs1 t sp \<or> spotStored evs2 t sp"
      using f(5) g(5) by blast
    show ?thesis
      unfolding Inr spotLoopPost_Inr spotUndecodable_simps spotCalls_simps spotRequested_simps
        spotStored_simps
      by (intro conjI 0 1 2 3 4)
  qed
qed

lemma spotPriceRequest_trace:
  "spotPriceRequest c region z t w = (r, w') \<Longrightarrow> trace w' = trace w @ [SpotPriceHistoryCall z t r]"
  by (auto simp: spotPriceRequest_def split: prod.splits)

text \<open>A failed request leaves the price map as it was, and the loop goes on with the next instance type.\<close>

lemma spotTypesLoop_failed:
  "priceInfo t = None \<Longrightarrow> spotPriceRequest c region zoneId t w = (RequestFailed err, w1) \<Longrightarrow>
     spotTypesLoop c region zoneId (t # ts) priceInfo w = spotTypesLoop c region zoneId ts priceInfo w1"
  by simp

lemma zone_pairs_Cons: "{z} \<times> set (t # ts) = insert (z, t) ({z} \<times> set ts)"
  by auto

lemma spotTypesLoop_events:
  "spotTypesLoop c region zoneId ts priceInfo w = (res, w') \<Longrightarrow>
     \<exists>evs. trace w' = trace w @ evs \<and> spotLoopPost priceInfo ({zoneId} \<times> set ts) res evs"
proof (induction ts arbitrary: priceInfo w)
  case Nil
  then show ?case by (auto simp: spotLoopPost_done)
next
  case (Cons t ts)
  show ?case
  proof (cases "priceInfo t = None")
    case False
    with Cons.prems have "spotTypesLoop c region zoneId ts priceInfo w = (res, w')" by simp
    from Cons.IH [OF this] obtain evs where
      evs: "trace w' = trace w @ evs" "spotLoopPost priceInfo ({zoneId} \<times> set ts) res evs" by blast
    have "t \<in> dom priceInfo" using False by auto
    from spotLoopPost_skip [OF this evs(2), of zoneId] evs(1) show ?thesis
      unfolding zone_pairs_Cons by blast
  next
    case True
    obtain r w1 where pr: "spotPriceRequest c region zoneId t w = (r, w1)"
      by (cases "spotPriceRequest c region zoneId t w")
    note tr = spotPriceRequest_trace [OF pr]
    show ?thesis
    proof (cases r)
      case (RequestFailed err)
      with Cons.prems True pr have "spotTypesLoop c region zoneId ts priceInfo w1 = (res, w')" by simp
      from Cons.IH [OF this] obtain evs where
        evs: "trace w' = trace w1 @ evs" "spotLoopPost priceInfo ({zoneId} \<times> set ts) res evs" by blast
      have "trace w' = trace w @ SpotPriceHistoryCall zoneId t r # evs" using evs(1) tr by simp
      moreover have "spotLoopPost priceInfo ({zoneId} \<times> set (t # ts)) res (SpotPriceHistoryCall zoneId t r # evs)"
        unfolding zone_pairs_Cons RequestFailed by (rule spotLoopPost_failed [OF True evs(2)])
      ultimately show ?thesis by blast
    next
      case (Undecodable err)
      with Cons.prems True pr have "res = Inl err" "w' = w1" by simp_all
      moreover have "spotLoopPost priceInfo ({zoneId} \<times> set (t # ts)) (Inl err)
                       [SpotPriceHistoryCall zoneId t (Undecodable err)]"
        unfolding zone_pairs_Cons by (rule spotLoopPost_undecodable)
      ultimately show ?thesis using tr Undecodable by blast
    next
      case (Decoded priceTypes)
      obtain spotPrice stored where pt: "priceTypesLoop zoneId priceTypes Map.empty False = (spotPrice, stored)"
        by (cases "priceTypesLoop zoneId priceTypes Map.empty False")
      show ?thesis
      proof (cases stored)
        case True
        from Cons.prems \<open>priceInfo t = None\<close> pr Decoded pt True
        have "spotTypesLoop c region zoneId ts (priceInfo(t \<mapsto> spotPrice)) w1 = (res, w')" by simp
        from Cons.IH [OF this] obtain evs where
          evs: "trace w' = trace w1 @ evs"
               "spotLoopPost (priceInfo(t \<mapsto> spotPrice)) ({zoneId} \<times> set ts) res evs" by blast
        have "trace w' = trace w @ SpotPriceHistoryCall zoneId t r # evs" using evs(1) tr by simp
        moreover have "spotLoopPost priceInfo ({zoneId} \<times> set (t # ts)) res
                         (SpotPriceHistoryCall zoneId t r # evs)"
          unfolding zone_pairs_Cons Decoded
          by (rule spotLoopPost_stored [OF \<open>priceInfo t = None\<close> evs(2) pt [unfolded eqTrueI [OF True]]])
        ultimately show ?thesis by blast
      next
        case False
        from Cons.prems \<open>priceInfo t = None\<close> pr Decoded pt False
        have "spotTypesLoop c region zoneId ts priceInfo w1 = (res, w')" by simp
        from Cons.IH [OF this] obtain evs where
          evs: "trace w' = trace w1 @ evs" "spotLoopPost priceInfo ({zoneId} \<times> set ts) res evs" by blast
        have "trace w' = trace w @ SpotPriceHistoryCall zoneId t r # evs" using evs(1) tr by simp
        moreover have "spotLoopPost priceInfo ({zoneId} \<times> set (t # ts)) res
                         (SpotPriceHistoryCall zoneId t r # evs)"
          unfolding zone_pairs_Cons Decoded
          by (rule spotLoopPost_unstored [OF \<open>priceInfo t = None\<close> evs(2) pt [unfolded eq_False [THEN iffD2, OF False]]])
        ultimately show ?thesis by blast
      qed
    qed
  qed
qed

lemma zonePairs_eq:
  "zonePairs zones = (\<Union>zone \<in> set zones. {ZoneId zone} \<times> set (AvailableInstanceTypes zone))"
  by (induction zones) auto

lemma spotZonesLoop_events:
  "spotZonesLoop c region zones priceInfo w = (res, w') \<Longrightarrow>
     \<exists>evs. trace w' = trace w @ evs \<and> spotLoopPost priceInfo (zonePairs zones) res evs"
proof (induction zones arbitrary: priceInfo w)
  case Nil
  then show ?case by (auto simp: spotLoopPost_done)
next
  case (Cons zone zones)
  obtain r1 w1 where tl: "spotTypesLoop c region (ZoneId zone) (AvailableInstanceTypes zone) priceInfo w = (r1, w1)"
    by (cases "spotTypesLoop c region (ZoneId zone) (AvailableInstanceTypes zone) priceInfo w")
  from spotTypesLoop_events [OF tl] obtain evs1 where
    e1: "trace w1 = trace w @ evs1"
        "spotLoopPost priceInfo ({ZoneId zone} \<times> set (AvailableInstanceTypes zone)) r1 evs1"
    by blast
  show ?case
  proof (cases r1)
    case (Inl err)
    with Cons.prems tl have r: "res = Inl err" "w' = w1" by simp_all
    have "spotLoopPost priceInfo (zonePairs (zone # zones)) (Inl err) evs1"
      using e1(2) unfolding Inl by (rule spotLoopPost_abort) simp
    then show ?thesis using r e1(1) by blast
  next
    case (Inr pi1)
    with Cons.prems tl have "spotZonesLoop c region zones pi1 w1 = (res, w')" by simp
    from Cons.IH [OF this] obtain evs2 where
      e2: "trace w' = trace w1 @ evs2" "spotLoopPost pi1 (zonePairs zones) res evs2" by blast
    have "trace w' = trace w @ (evs1 @ evs2)" using e1(1) e2(1) by simp
    moreover have "spotLoopPost priceInfo (zonePairs (zone # zones)) res (evs1 @ evs2)"
      using spotLoopPost_append [OF _ e2(2)] e1(2) Inr by simp
    ultimately show ?thesis by blast
  qed
qed

lemma getZones_trace:
  "getZones c region w = (r, w') \<Longrightarrow> \<exists>reply. trace w' = trace w @ [ZonesCall reply]"
  by (auto simp: getZones_def Let_def split: prod.splits reply.splits)

subsection \<open>Products\<close>

lemma serviceSwitch_supported:
  "service = ''ack'' \<or> service = ''compute'' \<Longrightarrow> serviceSwitch vmList service = Ok vmList"
  by (auto simp: serviceSwitch_def svcAck_def)

lemma serviceSwitch_unsupported:
  "service \<noteq> ''ack'' \<Longrightarrow> service \<noteq> ''compute'' \<Longrightarrow> serviceSwitch vmList service = Err (invalidService service)"
  by (simp add: serviceSwitch_def svcAck_def invalidService_def)

subsection \<open>The example runs\<close>

lemma bulk_run:
  "\<exists>allPrices. fetchPrices bulkProvider (map exampleVM alphabet) ''r'' world0 =
     (Ok allPrices,
      \<lparr>clientState = (), trace =
         [PriceCall BatchRequest (take 25 alphabet) (Inr (replicate 25 3)),
          PriceCall BatchRequest [''z''] (Inl invalidParameter),
          PriceCall RetryRequest [''z''] (Inl invalidParameter)]\<rparr>)"
  by (simp add: bulkProvider_def alphabet_def example_defs price_defs eval_nat_numeral)

lemma catalog_vms:
  "GetVirtualMachines exampleHelpers catalogProvider ''r'' world0 =
     (Ok [\<lparr>Category = ''General purpose'', Type = ''t1'', OnDemandPrice = 2, Cpus = 2, Mem = 4, Gpus = 0,
           NtwPerf = ''1.0 Gbit/s'', NtwPerfCat = ''medium'', Zones = [''z1'', ''z2''],
           Attributes = [''cpu'' \<mapsto> ''2'', ''memory'' \<mapsto> ''4'', ''networkPerfCategory'' \<mapsto> ''medium'',
                         ''instanceTypeCategory'' \<mapsto> ''General purpose'']\<rparr>,
          \<lparr>Category = ''General purpose'', Type = ''t3'', OnDemandPrice = 2, Cpus = 2, Mem = 4, Gpus = 0,
           NtwPerf = ''7.5 Gbit/s'', NtwPerfCat = '''', Zones = [''z1''],
           Attributes = [''cpu'' \<mapsto> ''2'', ''memory'' \<mapsto> ''4'', ''networkPerfCategory'' \<mapsto> '''',
                         ''instanceTypeCategory'' \<mapsto> ''General purpose'']\<rparr>],
      \<lparr>clientState = (), trace =
         [InstanceTypesCall (Decoded exampleTypes), ZonesCall (Decoded exampleZones),
          PriceCall BatchRequest [''t1'', ''t3''] (Inr [2, 2])]\<rparr>)"
  by (simp add: catalog_defs vm_defs example_defs price_defs)

lemma catalog_spot:
  "getCurrentSpotPrices catalogProvider ''r'' world0 =
     (Inr [''t1'' \<mapsto> [''z1'' \<mapsto> 3]],
      \<lparr>clientState = (), trace =
         [ZonesCall (Decoded exampleZones),
          SpotPriceHistoryCall ''z1'' ''t1'' (exampleSpot ''t1''),
          SpotPriceHistoryCall ''z1'' ''t2'' (RequestFailed (errorsNew ''Throttling'')),
          SpotPriceHistoryCall ''z1'' ''t3'' (exampleSpot ''t3'')]\<rparr>)"
  by (simp add: catalogProvider_def exampleZones_def exampleSpot_def example_defs spot_defs)

section \<open>The claims\<close>

text \<open>
  C1 (amended). For every non-empty list of descriptors on which \<^verbatim>\<open>getOnDemandPrice\<close>
  returns normally, the batch requests it issued are, in order, consecutive pieces of the
  list of instance types: each has between 1 and 25 members and every one but the last
  has exactly 25. When the instance types are pairwise distinct and every successful
  batch request returned one price for each member, the instance types that hold a
  fetched price are the input ones without those whose follow-up request failed.
\<close>

theorem getOnDemandPrice_batches:
  assumes "getOnDemandPrice c vms region w = (Ok vms', w')" and "vms \<noteq> []"
  shows "\<exists>allPrices. fetchPrices c vms region w = (Ok allPrices, w') \<and>
           vms' = map (withPrice allPrices) vms \<and>
           batchesOf (newEvents w w') \<noteq> [] \<and>
           concat (batchesOf (newEvents w w')) = map Type vms \<and>
           (\<forall>b \<in> set (batchesOf (newEvents w w')). 0 < length b \<and> length b \<le> 25) \<and>
           (\<forall>b \<in> set (butlast (batchesOf (newEvents w w'))). length b = 25) \<and>
           (distinct (map Type vms) \<and> onePricePerType (newEvents w w') \<longrightarrow>
              dom allPrices = set (map Type vms) - retryFailed (newEvents w w'))"
proof -
  from getOnDemandPrice_Ok [OF assms(1)] obtain ap where
    ap: "fetchPrices c vms region w = (Ok ap, w')" "vms' = map (withPrice ap) vms" by blast
  note f = fetchPrices_Ok [OF ap(1)]
  have "batchesOf (newEvents w w') \<noteq> []"
  proof
    assume "batchesOf (newEvents w w') = []"
    then have "map Type vms = []" using f by simp
    then show False using assms(2) by simp
  qed
  then show ?thesis using ap f by blast
qed

text \<open>
  The theorem at a list of 26: a batch of 25 that is priced, and a batch of one that is
  refused and whose follow-up request is refused too.
\<close>

theorem getOnDemandPrice_batches_witness:
  "\<exists>vms' w' allPrices.
     getOnDemandPrice bulkProvider (map exampleVM alphabet) ''r'' world0 = (Ok vms', w') \<and>
     fetchPrices bulkProvider (map exampleVM alphabet) ''r'' world0 = (Ok allPrices, w') \<and>
     map exampleVM alphabet \<noteq> [] \<and>
     distinct (map Type (map exampleVM alphabet)) \<and>
     onePricePerType (newEvents world0 w') \<and>
     batchesOf (newEvents world0 w') = [take 25 alphabet, [''z'']] \<and>
     retryFailed (newEvents world0 w') = {''z''} \<and>
     dom allPrices = set alphabet - {''z''}"
proof -
  let ?vms = "map exampleVM alphabet"
  let ?w = "\<lparr>clientState = (), trace =
         [PriceCall BatchRequest (take 25 alphabet) (Inr (replicate 25 3)),
          PriceCall BatchRequest [''z''] (Inl invalidParameter),
          PriceCall RetryRequest [''z''] (Inl invalidParameter)]\<rparr>"
  from bulk_run obtain ap where f: "fetchPrices bulkProvider ?vms ''r'' world0 = (Ok ap, ?w)" by blast
  then have run: "getOnDemandPrice bulkProvider ?vms ''r'' world0 = (Ok (map (withPrice ap) ?vms), ?w)"
    by (simp add: getOnDemandPrice_def)
  have ne: "?vms \<noteq> []" by (simp add: alphabet_def)
  have ty: "map Type ?vms = alphabet" by (simp add: comp_def exampleVM_def)
  have d: "distinct (map Type ?vms)" unfolding ty by (simp add: alphabet_def)
  have new: "newEvents world0 ?w = trace ?w" by (simp add: newEvents_def world0_def)
  have one: "onePricePerType (newEvents world0 ?w)"
    unfolding new by (simp add: onePricePerType_def alphabet_def)
  have rf: "retryFailed (newEvents world0 ?w) = {''z''}"
    unfolding new by (auto simp: retryFailed_def)
  have b: "batchesOf (newEvents world0 ?w) = [take 25 alphabet, [''z'']]"
    unfolding new by simp
  from getOnDemandPrice_batches [OF run ne] obtain ap' where
    a: "fetchPrices bulkProvider ?vms ''r'' world0 = (Ok ap', ?w)" and
    i: "distinct (map Type ?vms) \<and> onePricePerType (newEvents world0 ?w) \<longrightarrow>
          dom ap' = set (map Type ?vms) - retryFailed (newEvents world0 ?w)"
    by (elim exE conjE) (rule that, assumption+)
  have "(Ok ap', ?w) = (Ok ap, ?w)" using a f by (rule trans [OF sym])
  then have "ap' = ap" by (simp only: prod.inject outcome.inject)
  with i [rule_format, OF conjI [OF d one]]
  have "dom ap = set (map Type ?vms) - retryFailed (newEvents world0 ?w)" by (simp only:)
  then have "dom ap = set alphabet - {''z''}" unfolding ty rf .
  then show ?thesis
    by (intro exI [of _ "map (withPrice ap) ?vms"] exI [of _ ?w] exI [of _ ap] conjI run f ne d one b rf)
qed

text \<open>
  C1 as stated fails: a successful response with one price for a batch of two leaves the
  second instance type without a price, and no follow-up request was made for it.
\<close>

theorem getOnDemandPrice_short_reply_counterexample:
  "\<exists>allPrices w'.
     fetchPrices shortProvider [exampleVM ''a'', exampleVM ''b''] ''r'' world0 = (Ok allPrices, w') \<and>
     getOnDemandPrice shortProvider [exampleVM ''a'', exampleVM ''b''] ''r'' world0 =
       (Ok [(exampleVM ''a'')\<lparr>OnDemandPrice := 1\<rparr>, exampleVM ''b''], w') \<and>
     retryFailed (newEvents world0 w') = {} \<and>
     dom allPrices \<noteq> set (map Type [exampleVM ''a'', exampleVM ''b'']) - retryFailed (newEvents world0 w')"
proof -
  let ?w = "\<lparr>clientState = (), trace = [PriceCall BatchRequest [''a'', ''b''] (Inr [1])]\<rparr>"
  have run: "fetchPrices shortProvider [exampleVM ''a'', exampleVM ''b''] ''r'' world0 = (Ok [''a'' \<mapsto> 1], ?w)"
    by (simp add: shortProvider_def example_defs price_defs)
  have run2: "getOnDemandPrice shortProvider [exampleVM ''a'', exampleVM ''b''] ''r'' world0 =
       (Ok [(exampleVM ''a'')\<lparr>OnDemandPrice := 1\<rparr>, exampleVM ''b''], ?w)"
    by (simp add: shortProvider_def example_defs price_defs)
  have rf: "retryFailed (newEvents world0 ?w) = {}"
    by (simp add: newEvents_def world0_def retryFailed_def)
  have "dom [''a'' \<mapsto> (1::real)] \<noteq> set (map Type [exampleVM ''a'', exampleVM ''b'']) - {}"
    by (simp add: exampleVM_def)
  with run run2 rf show ?thesis by (intro exI [of _ "[''a'' \<mapsto> 1]"] exI [of _ ?w]) simp
qed

text \<open>
  C2. The failing input. A batch of two is refused with \<^verbatim>\<open>InvalidParameter\<close> and the
  follow-up request for its first member succeeds with no price: \<^verbatim>\<open>prices[0]\<close> panics,
  so the batch of two gets one follow-up request and not two.
\<close>

theorem getOnDemandPrice_retry_panics:
  "getOnDemandPrice emptyProvider [exampleVM ''a'', exampleVM ''b''] ''r'' world0 =
     (Panic, \<lparr>clientState = (), trace =
        [PriceCall BatchRequest [''a'', ''b''] (Inl invalidParameter),
         PriceCall RetryRequest [''a''] (Inr [])]\<rparr>)"
  by (simp add: emptyProvider_def example_defs price_defs)

text \<open>
  C3 (amended). When \<^verbatim>\<open>getOnDemandPrice\<close> returns normally, the returned list has the
  instance types of the input in the same order, and every descriptor whose instance
  type holds no fetched price has the on-demand price 0, the value Go reads from a map at
  a key it does not hold. When the instance types are pairwise distinct, this is the case
  for every instance type whose follow-up request failed.
\<close>

theorem getOnDemandPrice_unpriced_zero:
  assumes "getOnDemandPrice c vms region w = (Ok vms', w')"
  shows "map Type vms' = map Type vms \<and>
         (\<exists>allPrices. fetchPrices c vms region w = (Ok allPrices, w') \<and>
            (\<forall>vm \<in> set vms'. allPrices (Type vm) = None \<longrightarrow> OnDemandPrice vm = 0) \<and>
            (distinct (map Type vms) \<longrightarrow>
               (\<forall>vm \<in> set vms'. Type vm \<in> retryFailed (newEvents w w') \<longrightarrow>
                  allPrices (Type vm) = None \<and> OnDemandPrice vm = 0)))"
proof -
  from getOnDemandPrice_Ok [OF assms] obtain ap where
    ap: "fetchPrices c vms region w = (Ok ap, w')" "vms' = map (withPrice ap) vms" by blast
  have ty: "map Type vms' = map Type vms" using ap(2) by simp
  have zero: "\<forall>vm \<in> set vms'. ap (Type vm) = None \<longrightarrow> OnDemandPrice vm = 0"
    using ap(2) by (auto simp: priceOf_def)
  have "\<forall>vm \<in> set vms'. Type vm \<in> retryFailed (newEvents w w') \<longrightarrow> ap (Type vm) = None"
    if "distinct (map Type vms)"
  proof -
    from fetchPrices_Ok [OF ap(1)] that
    have "dom ap \<subseteq> set (map Type vms) - retryFailed (newEvents w w')" by blast
    then show ?thesis by (auto simp: dom_def)
  qed
  with ap(1) ty zero show ?thesis by blast
qed

text \<open>The theorem at a refused batch of two, where the follow-up for \<^verbatim>\<open>b\<close> fails.\<close>

theorem getOnDemandPrice_unpriced_zero_witness:
  "getOnDemandPrice pickyProvider [exampleVM ''a'', (exampleVM ''b'')\<lparr>OnDemandPrice := 7\<rparr>] ''r'' world0 =
     (Ok [(exampleVM ''a'')\<lparr>OnDemandPrice := 3\<rparr>, (exampleVM ''b'')\<lparr>OnDemandPrice := 0\<rparr>],
      \<lparr>clientState = (), trace =
         [PriceCall BatchRequest [''a'', ''b''] (Inl invalidParameter),
          PriceCall RetryRequest [''a''] (Inr [3]),
          PriceCall RetryRequest [''b''] (Inl invalidParameter)]\<rparr>) \<and>
   distinct (map Type [exampleVM ''a'', (exampleVM ''b'')\<lparr>OnDemandPrice := 7\<rparr>]) \<and>
   ''b'' \<in> retryFailed (newEvents world0 \<lparr>clientState = (), trace =
         [PriceCall BatchRequest [''a'', ''b''] (Inl invalidParameter),
          PriceCall RetryRequest [''a''] (Inr [3]),
          PriceCall RetryRequest [''b''] (Inl invalidParameter)]\<rparr>) \<and>
   map Type [(exampleVM ''a'')\<lparr>OnDemandPrice := 3\<rparr>, (exampleVM ''b'')\<lparr>OnDemandPrice := 0\<rparr>] =
     map Type [exampleVM ''a'', (exampleVM ''b'')\<lparr>OnDemandPrice := 7\<rparr>]"
proof -
  let ?w = "\<lparr>clientState = (), trace =
         [PriceCall BatchRequest [''a'', ''b''] (Inl invalidParameter),
          PriceCall RetryRequest [''a''] (Inr [3]),
          PriceCall RetryRequest [''b''] (Inl invalidParameter)]\<rparr>"
  have run: "getOnDemandPrice pickyProvider [exampleVM ''a'', (exampleVM ''b'')\<lparr>OnDemandPrice := 7\<rparr>] ''r'' world0 =
     (Ok [(exampleVM ''a'')\<lparr>OnDemandPrice := 3\<rparr>, (exampleVM ''b'')\<lparr>OnDemandPrice := 0\<rparr>], ?w)"
    by (simp add: pickyProvider_def example_defs price_defs)
  have d: "distinct (map Type [exampleVM ''a'', (exampleVM ''b'')\<lparr>OnDemandPrice := 7\<rparr>])"
    by (simp add: exampleVM_def)
  have rf: "''b'' \<in> retryFailed (newEvents world0 ?w)"
    by (simp add: newEvents_def world0_def retryFailed_def invalidParameter_def)
  from getOnDemandPrice_unpriced_zero [OF run] run d rf show ?thesis by simp
qed

text \<open>
  C3 as stated fails: the one instance type is refused in the batch and in the follow-up,
  and it is returned with the on-demand price 0, although it came in with 7.
\<close>

theorem getOnDemandPrice_unpriced_counterexample:
  "\<exists>vms' w'.
     getOnDemandPrice rejectingProvider [(exampleVM ''a'')\<lparr>OnDemandPrice := 7\<rparr>] ''r'' world0 = (Ok vms', w') \<and>
     newEvents world0 w' = [PriceCall BatchRequest [''a''] (Inl invalidParameter),
                            PriceCall RetryRequest [''a''] (Inl invalidParameter)] \<and>
     (\<exists>vm \<in> set vms'. Type vm = ''a'' \<and> OnDemandPrice vm = 0)"
proof -
  let ?w = "\<lparr>clientState = (), trace = [PriceCall BatchRequest [''a''] (Inl invalidParameter),
        PriceCall RetryRequest [''a''] (Inl invalidParameter)]\<rparr>"
  have "getOnDemandPrice rejectingProvider [(exampleVM ''a'')\<lparr>OnDemandPrice := 7\<rparr>] ''r'' world0 =
     (Ok [(exampleVM ''a'')\<lparr>OnDemandPrice := 0\<rparr>], ?w)"
    by (simp add: rejectingProvider_def example_defs price_defs)
  moreover have "newEvents world0 ?w = trace ?w" by (simp add: newEvents_def world0_def)
  ultimately show ?thesis
    by (intro exI [of _ "[(exampleVM ''a'')\<lparr>OnDemandPrice := 0\<rparr>]"] exI [of _ ?w]) (simp add: exampleVM_def)
qed

text \<open>
  C4 (amended). The network mapper has no influence on whether \<^verbatim>\<open>GetVirtualMachines\<close>
  fails, on the error, on the instance types listed or on the requests made: with any
  other mapper in its place the outcome is the same up to the descriptors' other fields.
  A returned descriptor carries as its tier the string the mapper returned for its
  performance string, with or without an error; no default is put in its place. The
  instance types listed are those that some zone's resources support.
\<close>

theorem GetVirtualMachines_mapping_error:
  "(map_outcome (map Type) (fst (GetVirtualMachines (h\<lparr>MapNetworkPerf := m\<rparr>) c region w)) =
      map_outcome (map Type) (fst (GetVirtualMachines h c region w)) \<and>
    snd (GetVirtualMachines (h\<lparr>MapNetworkPerf := m\<rparr>) c region w) = snd (GetVirtualMachines h c region w)) \<and>
   (\<forall>vms w'. GetVirtualMachines h c region w = (Ok vms, w') \<longrightarrow>
      (\<forall>vm \<in> set vms. NtwPerfCat vm = fst (MapNetworkPerf h (NtwPerf vm))) \<and>
      (\<forall>its w1 zs w2. getInstanceTypes c w = (Inr its, w1) \<and> getZones c region w1 = (Inr zs, w2) \<longrightarrow>
         map Type vms = map InstanceTypeId (filter (\<lambda>it. zonesLoop zs (InstanceTypeId it) [] \<noteq> []) its)))"
proof -
  have A: "map_outcome (map Type) (fst (GetVirtualMachines (h\<lparr>MapNetworkPerf := m\<rparr>) c region w)) =
      map_outcome (map Type) (fst (GetVirtualMachines h c region w)) \<and>
    snd (GetVirtualMachines (h\<lparr>MapNetworkPerf := m\<rparr>) c region w) = snd (GetVirtualMachines h c region w)"
  proof (cases "getInstanceTypes c w")
    case (Pair r1 w1)
    show ?thesis
    proof (cases r1)
      case (Inl err)
      then show ?thesis using Pair by (simp add: GetVirtualMachines_def)
    next
      case (Inr its)
      show ?thesis
      proof (cases "getZones c region w1")
        case gz: (Pair r2 w2)
        show ?thesis
        proof (cases r2)
          case (Inl err)
          then show ?thesis using Pair Inr gz by (simp add: GetVirtualMachines_def)
        next
          case zs: (Inr zs)
          have "map Type (vmsLoop (h\<lparr>MapNetworkPerf := m\<rparr>) its zs []) = map Type (vmsLoop h its zs [])"
            by (simp add: vmsLoop_types)
          from getOnDemandPrice_types_only [OF this, of c region w2]
          show ?thesis using Pair Inr gz zs by (simp add: GetVirtualMachines_def)
        qed
      qed
    qed
  qed
  have B: "(\<forall>vm \<in> set vms. NtwPerfCat vm = fst (MapNetworkPerf h (NtwPerf vm))) \<and>
      (\<forall>its w1 zs w2. getInstanceTypes c w = (Inr its, w1) \<and> getZones c region w1 = (Inr zs, w2) \<longrightarrow>
         map Type vms = map InstanceTypeId (filter (\<lambda>it. zonesLoop zs (InstanceTypeId it) [] \<noteq> []) its))"
    if ok: "GetVirtualMachines h c region w = (Ok vms, w')" for vms w'
  proof -
    from GetVirtualMachines_Ok [OF ok] obtain its zs w1 w2 ap where
      g: "getInstanceTypes c w = (Inr its, w1)" "getZones c region w1 = (Inr zs, w2)"
        "vms = map (withPrice ap) (vmsLoop h its zs [])" by blast
    have 1: "\<forall>vm \<in> set vms. NtwPerfCat vm = fst (MapNetworkPerf h (NtwPerf vm))"
      unfolding g(3) by (auto simp: vmsLoop_eq)
    have "map Type vms = map InstanceTypeId (filter (\<lambda>it. zonesLoop zs (InstanceTypeId it) [] \<noteq> []) its)"
      unfolding g(3) using vmsLoop_types [of h its zs] by (simp add: comp_def)
    then have 2: "\<forall>its' w1' zs' w2'. getInstanceTypes c w = (Inr its', w1') \<and> getZones c region w1' = (Inr zs', w2') \<longrightarrow>
         map Type vms = map InstanceTypeId (filter (\<lambda>it. zonesLoop zs' (InstanceTypeId it) [] \<noteq> []) its')"
      using g(1,2) by auto
    from 1 2 show ?thesis by blast
  qed
  show ?thesis using A B by blast
qed

text \<open>The theorem at the example region, where the mapper fails for \<^verbatim>\<open>t3\<close>.\<close>

theorem GetVirtualMachines_mapping_error_witness:
  "map_outcome (map Type)
     (fst (GetVirtualMachines (exampleHelpers\<lparr>MapNetworkPerf := (\<lambda>ntwPerf. (''low'', None))\<rparr>)
             catalogProvider ''r'' world0)) = Ok [''t1'', ''t3''] \<and>
   map_outcome (map Type) (fst (GetVirtualMachines exampleHelpers catalogProvider ''r'' world0)) =
     Ok [''t1'', ''t3''] \<and>
   snd (MapNetworkPerf exampleHelpers (formatNtwPerf exampleHelpers 7680000)) =
     Some \<lparr>errMessage = ''could not determine network performance: 7.5 Gbit/s'', errContext = []\<rparr>"
proof -
  note th = GetVirtualMachines_mapping_error [where h = exampleHelpers
      and m = "\<lambda>ntwPerf. (''low'', None)" and c = catalogProvider and region = "''r''" and w = world0,
      THEN conjunct1, THEN conjunct1]
  have r: "map_outcome (map Type) (fst (GetVirtualMachines exampleHelpers catalogProvider ''r'' world0)) =
     Ok [''t1'', ''t3'']"
    by (simp add: catalog_vms)
  have e: "snd (MapNetworkPerf exampleHelpers (formatNtwPerf exampleHelpers 7680000)) =
     Some \<lparr>errMessage = ''could not determine network performance: 7.5 Gbit/s'', errContext = []\<rparr>"
    by (simp add: exampleHelpers_def errorsNew_def emperrorWrap_def)
  show ?thesis using th r e by simp
qed

text \<open>
  C4 as stated fails: \<^verbatim>\<open>t3\<close> is listed, its performance string is not mapped, and its
  tier is the empty string that the mapper returned with the error.
\<close>

theorem GetVirtualMachines_empty_tier_counterexample:
  "\<exists>vms w'. GetVirtualMachines exampleHelpers catalogProvider ''r'' world0 = (Ok vms, w') \<and>
     (\<exists>vm \<in> set vms. Type vm = ''t3'' \<and> snd (MapNetworkPerf exampleHelpers (NtwPerf vm)) \<noteq> None \<and>
        NtwPerfCat vm = [])"
  unfolding catalog_vms by (simp add: exampleHelpers_def)

text \<open>
  C5. Every entry of the map that \<^verbatim>\<open>GetCurrentPrices\<close> returns has the on-demand price
  -1 and, as its spot price, the entry of the same instance type in the result of
  \<^verbatim>\<open>getCurrentSpotPrices\<close>; the two maps have the same keys.
\<close>

theorem GetCurrentPrices_sentinel:
  assumes "GetCurrentPrices c region w = (Inr prices, w')"
  shows "\<exists>spotPrices. getCurrentSpotPrices c region w = (Inr spotPrices, w') \<and>
           dom prices = dom spotPrices \<and>
           (\<forall>instanceType p. prices instanceType = Some p \<longrightarrow>
              Price_OnDemandPrice p = - 1 \<and> spotPrices instanceType = Some (SpotPrice p))"
proof -
  from assms obtain spotPrices where
    sp: "getCurrentSpotPrices c region w = (Inr spotPrices, w')"
    and p: "prices = (\<lambda>instanceType. case spotPrices instanceType of None \<Rightarrow> None
                        | Some sp \<Rightarrow> Some \<lparr>SpotPrice = sp, Price_OnDemandPrice = - 1\<rparr>)"
    by (auto simp: GetCurrentPrices_def split: prod.splits sum.splits)
  have "dom prices = dom spotPrices" using p by (auto simp: dom_def split: option.splits)
  moreover have "\<forall>instanceType p. prices instanceType = Some p \<longrightarrow>
              Price_OnDemandPrice p = - 1 \<and> spotPrices instanceType = Some (SpotPrice p)"
    using p by (auto split: option.splits)
  ultimately show ?thesis using sp by blast
qed

text \<open>The theorem at the example region.\<close>

theorem GetCurrentPrices_sentinel_witness:
  "\<exists>prices w'. GetCurrentPrices catalogProvider ''r'' world0 = (Inr prices, w') \<and>
     prices ''t1'' = Some \<lparr>SpotPrice = [''z1'' \<mapsto> 3], Price_OnDemandPrice = - 1\<rparr> \<and>
     dom prices = {''t1''}"
proof -
  let ?prices = "\<lambda>instanceType. case [''t1'' \<mapsto> [''z1'' \<mapsto> (3::real)]] instanceType of None \<Rightarrow> None
                        | Some sp \<Rightarrow> Some \<lparr>SpotPrice = sp, Price_OnDemandPrice = - 1\<rparr>"
  let ?w = "\<lparr>clientState = (), trace =
         [ZonesCall (Decoded exampleZones),
          SpotPriceHistoryCall ''z1'' ''t1'' (exampleSpot ''t1''),
          SpotPriceHistoryCall ''z1'' ''t2'' (RequestFailed (errorsNew ''Throttling'')),
          SpotPriceHistoryCall ''z1'' ''t3'' (exampleSpot ''t3'')]\<rparr>"
  have run: "GetCurrentPrices catalogProvider ''r'' world0 = (Inr ?prices, ?w)"
    by (simp add: GetCurrentPrices_def catalog_spot)
  from GetCurrentPrices_sentinel [OF run] have "dom ?prices = {''t1''}"
    by (simp add: catalog_spot)
  moreover have "?prices ''t1'' = Some \<lparr>SpotPrice = [''z1'' \<mapsto> 3], Price_OnDemandPrice = - 1\<rparr>"
    by simp
  ultimately show ?thesis using run by blast
qed

text \<open>
  C6 (amended). \<^verbatim>\<open>getCurrentSpotPrices\<close> fails exactly when the zones cannot be listed
  or the response to a price history request cannot be decoded. A price history request
  that fails is passed over: the loop goes on with the next instance type and the same
  price map. When the call returns a map, every instance type of every zone was asked for
  at least once, every request was for an instance type of the zone being visited, and
  the map holds exactly the prices that the run stored, each computed from a decoded
  history of that instance type for the zone being visited. The last part says when
  lines 99 to 105 store a history: when it is not empty and its first item is of another
  zone; what is stored is the price of its first item of the visited zone, if any.
\<close>

theorem getCurrentSpotPrices_errors:
  assumes "getCurrentSpotPrices c region w = (res, w')"
  shows "(isl res \<longleftrightarrow> (\<exists>err. getZones c region w = (Inl err, w')) \<or> spotUndecodable (newEvents w w')) \<and>
         (\<forall>zones w1 priceInfo. getZones c region w = (Inr zones, w1) \<and> res = Inr priceInfo \<longrightarrow>
            (\<forall>zone \<in> set zones. set (AvailableInstanceTypes zone) \<subseteq> spotRequested (newEvents w w')) \<and>
            (\<forall>z t r. SpotPriceHistoryCall z t r \<in> set (newEvents w w') \<longrightarrow>
               (\<exists>zone \<in> set zones. z = ZoneId zone \<and> t \<in> set (AvailableInstanceTypes zone))) \<and>
            (\<forall>t sp. priceInfo t = Some sp \<longleftrightarrow> spotStored (newEvents w w') t sp)) \<and>
         (\<forall>zoneId t ts priceInfo v v1 err.
            priceInfo t = None \<and> spotPriceRequest c region zoneId t v = (RequestFailed err, v1) \<longrightarrow>
            spotTypesLoop c region zoneId (t # ts) priceInfo v =
              spotTypesLoop c region zoneId ts priceInfo v1) \<and>
         (\<forall>z priceTypes sp. priceTypesLoop z priceTypes Map.empty False = (sp, True) \<longleftrightarrow>
            priceTypes \<noteq> [] \<and> SpotPriceType_ZoneId (hd priceTypes) \<noteq> z \<and>
            sp = (case find (\<lambda>pt. SpotPriceType_ZoneId pt = z) priceTypes of
                    None \<Rightarrow> Map.empty
                  | Some pt \<Rightarrow> [z \<mapsto> SpotPriceType_SpotPrice pt]))"
proof -
  have C: "\<forall>zoneId t ts priceInfo v v1 err.
            priceInfo t = None \<and> spotPriceRequest c region zoneId t v = (RequestFailed err, v1) \<longrightarrow>
            spotTypesLoop c region zoneId (t # ts) priceInfo v =
              spotTypesLoop c region zoneId ts priceInfo v1"
    using spotTypesLoop_failed by blast
  have D: "\<forall>z priceTypes sp. priceTypesLoop z priceTypes Map.empty False = (sp, True) \<longleftrightarrow>
            priceTypes \<noteq> [] \<and> SpotPriceType_ZoneId (hd priceTypes) \<noteq> z \<and>
            sp = (case find (\<lambda>pt. SpotPriceType_ZoneId pt = z) priceTypes of
                    None \<Rightarrow> Map.empty
                  | Some pt \<Rightarrow> [z \<mapsto> SpotPriceType_SpotPrice pt])"
    using priceTypesLoop_stored_iff by blast
  obtain rz w1 where gz: "getZones c region w = (rz, w1)" by (cases "getZones c region w")
  from getZones_trace [OF gz] obtain reply where tz: "trace w1 = trace w @ [ZonesCall reply]" by blast
  have AB: "(isl res \<longleftrightarrow> (\<exists>err. getZones c region w = (Inl err, w')) \<or> spotUndecodable (newEvents w w')) \<and>
         (\<forall>zones w1 priceInfo. getZones c region w = (Inr zones, w1) \<and> res = Inr priceInfo \<longrightarrow>
            (\<forall>zone \<in> set zones. set (AvailableInstanceTypes zone) \<subseteq> spotRequested (newEvents w w')) \<and>
            (\<forall>z t r. SpotPriceHistoryCall z t r \<in> set (newEvents w w') \<longrightarrow>
               (\<exists>zone \<in> set zones. z = ZoneId zone \<and> t \<in> set (AvailableInstanceTypes zone))) \<and>
            (\<forall>t sp. priceInfo t = Some sp \<longleftrightarrow> spotStored (newEvents w w') t sp))"
  proof (cases rz)
    case (Inl err)
    with assms gz have "res = Inl err" "w' = w1" by (simp_all add: getCurrentSpotPrices_def)
    then show ?thesis using gz Inl by simp
  next
    case (Inr zones)
    with assms gz have zl: "spotZonesLoop c region zones Map.empty w1 = (res, w')"
      by (simp add: getCurrentSpotPrices_def)
    from spotZonesLoop_events [OF zl] obtain evs where
      evs: "trace w' = trace w1 @ evs" "spotLoopPost Map.empty (zonePairs zones) res evs" by blast
    have new: "newEvents w w' = ZonesCall reply # evs" using tz evs(1) by (simp add: newEvents_def)
    have nz: "\<not> (\<exists>err. getZones c region w = (Inl err, w'))" using gz Inr by simp
    have 1: "isl res \<longleftrightarrow> spotUndecodable (newEvents w w')"
      using evs(2) new by (simp add: spotLoopPost_def)
    have 2: "(\<forall>zone \<in> set zones. set (AvailableInstanceTypes zone) \<subseteq> spotRequested (newEvents w w')) \<and>
            (\<forall>z t r. SpotPriceHistoryCall z t r \<in> set (newEvents w w') \<longrightarrow>
               (\<exists>zone \<in> set zones. z = ZoneId zone \<and> t \<in> set (AvailableInstanceTypes zone))) \<and>
            (\<forall>t sp. priceInfo t = Some sp \<longleftrightarrow> spotStored (newEvents w w') t sp)"
      if "res = Inr priceInfo" for priceInfo
    proof -
      from evs(2) that have f: "spotCalls evs \<subseteq> zonePairs zones"
        "snd ` zonePairs zones \<subseteq> spotRequested evs"
        "\<forall>t sp. priceInfo t = Some sp \<longleftrightarrow> spotStored evs t sp"
        by (simp_all add: spotLoopPost_Inr)
      have a: "\<forall>zone \<in> set zones. set (AvailableInstanceTypes zone) \<subseteq> spotRequested (newEvents w w')"
      proof (intro ballI subsetI)
        fix zone x assume "zone \<in> set zones" "x \<in> set (AvailableInstanceTypes zone)"
        then have "(ZoneId zone, x) \<in> zonePairs zones" unfolding zonePairs_eq by blast
        then have "x \<in> snd ` zonePairs zones" by force
        then show "x \<in> spotRequested (newEvents w w')" using f(2) new by auto
      qed
      have b: "\<forall>z t r. SpotPriceHistoryCall z t r \<in> set (newEvents w w') \<longrightarrow>
               (\<exists>zone \<in> set zones. z = ZoneId zone \<and> t \<in> set (AvailableInstanceTypes zone))"
      proof (intro allI impI)
        fix z t r assume "SpotPriceHistoryCall z t r \<in> set (newEvents w w')"
        then have "SpotPriceHistoryCall z t r \<in> set evs" using new by simp
        then have "(z, t) \<in> spotCalls evs" by (auto simp: spotCalls_def)
        then have "(z, t) \<in> zonePairs zones" using f(1) by blast
        then show "\<exists>zone \<in> set zones. z = ZoneId zone \<and> t \<in> set (AvailableInstanceTypes zone)"
          unfolding zonePairs_eq by blast
      qed
      have c: "\<forall>t sp. priceInfo t = Some sp \<longleftrightarrow> spotStored (newEvents w w') t sp"
        using f(3) new by simp
      from a b c show ?thesis by (intro conjI)
    qed
    have A: "isl res \<longleftrightarrow>
               (\<exists>err. getZones c region w = (Inl err, w')) \<or> spotUndecodable (newEvents w w')"
      using 1 nz by simp
    have B: "\<forall>zones' w1' priceInfo. getZones c region w = (Inr zones', w1') \<and> res = Inr priceInfo \<longrightarrow>
            (\<forall>zone \<in> set zones'. set (AvailableInstanceTypes zone) \<subseteq> spotRequested (newEvents w w')) \<and>
            (\<forall>z t r. SpotPriceHistoryCall z t r \<in> set (newEvents w w') \<longrightarrow>
               (\<exists>zone \<in> set zones'. z = ZoneId zone \<and> t \<in> set (AvailableInstanceTypes zone))) \<and>
            (\<forall>t sp. priceInfo t = Some sp \<longleftrightarrow> spotStored (newEvents w w') t sp)"
    proof (intro allI impI)
      fix zones' w1' priceInfo
      assume h: "getZones c region w = (Inr zones', w1') \<and> res = Inr priceInfo"
      then have z: "zones' = zones" and r: "res = Inr priceInfo" using gz Inr by simp_all
      show "(\<forall>zone \<in> set zones'. set (AvailableInstanceTypes zone) \<subseteq> spotRequested (newEvents w w')) \<and>
            (\<forall>z t r. SpotPriceHistoryCall z t r \<in> set (newEvents w w') \<longrightarrow>
               (\<exists>zone \<in> set zones'. z = ZoneId zone \<and> t \<in> set (AvailableInstanceTypes zone))) \<and>
            (\<forall>t sp. priceInfo t = Some sp \<longleftrightarrow> spotStored (newEvents w w') t sp)"
        unfolding z by (rule 2 [OF r])
    qed
    show ?thesis by (intro conjI A B)
  qed
  show ?thesis by (intro conjI AB [THEN conjunct1] AB [THEN conjunct2] C D)
qed

text \<open>
  The theorem at the example region. The history of \<^verbatim>\<open>t1\<close> is stored, the request for
  \<^verbatim>\<open>t2\<close> fails and leaves the stored price in place, and the history of \<^verbatim>\<open>t3\<close>,
  whose first item is of the visited zone, is not stored.
\<close>

theorem getCurrentSpotPrices_errors_witness:
  "getCurrentSpotPrices catalogProvider ''r'' world0 =
     (Inr [''t1'' \<mapsto> [''z1'' \<mapsto> 3]],
      \<lparr>clientState = (), trace =
         [ZonesCall (Decoded exampleZones),
          SpotPriceHistoryCall ''z1'' ''t1'' (exampleSpot ''t1''),
          SpotPriceHistoryCall ''z1'' ''t2'' (RequestFailed (errorsNew ''Throttling'')),
          SpotPriceHistoryCall ''z1'' ''t3'' (exampleSpot ''t3'')]\<rparr>) \<and>
   fst (getZones catalogProvider ''r'' world0) = Inr exampleZones \<and>
   \<not> spotUndecodable (newEvents world0 \<lparr>clientState = (), trace =
         [ZonesCall (Decoded exampleZones),
          SpotPriceHistoryCall ''z1'' ''t1'' (exampleSpot ''t1''),
          SpotPriceHistoryCall ''z1'' ''t2'' (RequestFailed (errorsNew ''Throttling'')),
          SpotPriceHistoryCall ''z1'' ''t3'' (exampleSpot ''t3'')]\<rparr>) \<and>
   {''t1'', ''t2'', ''t3''} \<subseteq> spotRequested (newEvents world0 \<lparr>clientState = (), trace =
         [ZonesCall (Decoded exampleZones),
          SpotPriceHistoryCall ''z1'' ''t1'' (exampleSpot ''t1''),
          SpotPriceHistoryCall ''z1'' ''t2'' (RequestFailed (errorsNew ''Throttling'')),
          SpotPriceHistoryCall ''z1'' ''t3'' (exampleSpot ''t3'')]\<rparr>) \<and>
   spotStored (newEvents world0 \<lparr>clientState = (), trace =
         [ZonesCall (Decoded exampleZones),
          SpotPriceHistoryCall ''z1'' ''t1'' (exampleSpot ''t1''),
          SpotPriceHistoryCall ''z1'' ''t2'' (RequestFailed (errorsNew ''Throttling'')),
          SpotPriceHistoryCall ''z1'' ''t3'' (exampleSpot ''t3'')]\<rparr>) ''t1'' [''z1'' \<mapsto> 3] \<and>
   \<not> spotStored (newEvents world0 \<lparr>clientState = (), trace =
         [ZonesCall (Decoded exampleZones),
          SpotPriceHistoryCall ''z1'' ''t1'' (exampleSpot ''t1''),
          SpotPriceHistoryCall ''z1'' ''t2'' (RequestFailed (errorsNew ''Throttling'')),
          SpotPriceHistoryCall ''z1'' ''t3'' (exampleSpot ''t3'')]\<rparr>) ''t3'' [''z1'' \<mapsto> 4] \<and>
   spotTypesLoop catalogProvider ''r'' ''z1'' [''t2'', ''t3''] [''t1'' \<mapsto> [''z1'' \<mapsto> 3]]
       \<lparr>clientState = (), trace =
         [ZonesCall (Decoded exampleZones), SpotPriceHistoryCall ''z1'' ''t1'' (exampleSpot ''t1'')]\<rparr> =
     spotTypesLoop catalogProvider ''r'' ''z1'' [''t3''] [''t1'' \<mapsto> [''z1'' \<mapsto> 3]]
       \<lparr>clientState = (), trace =
         [ZonesCall (Decoded exampleZones), SpotPriceHistoryCall ''z1'' ''t1'' (exampleSpot ''t1''),
          SpotPriceHistoryCall ''z1'' ''t2'' (RequestFailed (errorsNew ''Throttling''))]\<rparr> \<and>
   priceTypesLoop ''z1'' [\<lparr>SpotPriceType_ZoneId = ''z2'', SpotPriceType_SpotPrice = 5\<rparr>,
                          \<lparr>SpotPriceType_ZoneId = ''z1'', SpotPriceType_SpotPrice = 3\<rparr>] Map.empty False =
     ([''z1'' \<mapsto> 3], True)"
proof -
  let ?w = "\<lparr>clientState = (), trace =
         [ZonesCall (Decoded exampleZones),
          SpotPriceHistoryCall ''z1'' ''t1'' (exampleSpot ''t1''),
          SpotPriceHistoryCall ''z1'' ''t2'' (RequestFailed (errorsNew ''Throttling'')),
          SpotPriceHistoryCall ''z1'' ''t3'' (exampleSpot ''t3'')]\<rparr>"
  let ?w1 = "\<lparr>clientState = (), trace =
         [ZonesCall (Decoded exampleZones), SpotPriceHistoryCall ''z1'' ''t1'' (exampleSpot ''t1'')]\<rparr>"
  let ?w2 = "\<lparr>clientState = (), trace =
         [ZonesCall (Decoded exampleZones), SpotPriceHistoryCall ''z1'' ''t1'' (exampleSpot ''t1''),
          SpotPriceHistoryCall ''z1'' ''t2'' (RequestFailed (errorsNew ''Throttling''))]\<rparr>"
  let ?pts = "[\<lparr>SpotPriceType_ZoneId = ''z2'', SpotPriceType_SpotPrice = 5\<rparr>,
               \<lparr>SpotPriceType_ZoneId = ''z1'', SpotPriceType_SpotPrice = (3::real)\<rparr>]"
  note run = catalog_spot
  have gz: "getZones catalogProvider ''r'' world0 =
              (Inr exampleZones, \<lparr>clientState = (), trace = [ZonesCall (Decoded exampleZones)]\<rparr>)"
    by (simp add: catalogProvider_def example_defs spot_defs)
  have z: "set (AvailableInstanceTypes (hd exampleZones)) = {''t1'', ''t2'', ''t3''}"
    "hd exampleZones \<in> set exampleZones"
    by (auto simp: exampleZones_def)
  have pn: "[''t1'' \<mapsto> [''z1'' \<mapsto> (3::real)]] ''t2'' = None" by simp
  have req: "spotPriceRequest catalogProvider ''r'' ''z1'' ''t2'' ?w1 =
               (RequestFailed (errorsNew ''Throttling''), ?w2)"
    by (simp add: catalogProvider_def exampleSpot_def example_defs spot_defs)
  note th = getCurrentSpotPrices_errors [OF run]
  note a = th [THEN conjunct1]
  note b = th [THEN conjunct2, THEN conjunct1, rule_format, OF conjI [OF gz refl]]
  note b3 = b [THEN conjunct2, THEN conjunct2, rule_format]
  note c = th [THEN conjunct2, THEN conjunct2, THEN conjunct1, rule_format,
      where priceInfo = "[''t1'' \<mapsto> [''z1'' \<mapsto> 3]]" and t = "''t2''" and ts = "[''t3'']",
      OF conjI [OF pn req]]
  note d = th [THEN conjunct2, THEN conjunct2, THEN conjunct2, rule_format]
  have nz: "\<not> (\<exists>err. getZones catalogProvider ''r'' world0 = (Inl err, ?w))"
    unfolding gz by simp
  have nu: "\<not> spotUndecodable (newEvents world0 ?w)" using a nz by simp
  have "set (AvailableInstanceTypes (hd exampleZones)) \<subseteq> spotRequested (newEvents world0 ?w)"
    using b [THEN conjunct1] z(2) by (rule bspec)
  then have sub: "{''t1'', ''t2'', ''t3''} \<subseteq> spotRequested (newEvents world0 ?w)"
    unfolding z(1) .
  have st1: "spotStored (newEvents world0 ?w) ''t1'' [''z1'' \<mapsto> 3]"
    using b3 [of "''t1''" "[''z1'' \<mapsto> 3]"] by simp
  have st3: "\<not> spotStored (newEvents world0 ?w) ''t3'' [''z1'' \<mapsto> 4]"
    using b3 [of "''t3''" "[''z1'' \<mapsto> 4]"] by simp
  have pl: "priceTypesLoop ''z1'' ?pts Map.empty False = ([''z1'' \<mapsto> 3], True)"
    using d [of "''z1''" ?pts "[''z1'' \<mapsto> 3]"] by simp
  have gz': "fst (getZones catalogProvider ''r'' world0) = Inr exampleZones" unfolding gz by simp
  show ?thesis by (intro conjI run gz' nu sub st1 st3 c pl)
qed

text \<open>
  C6 as stated fails: the zones are listed, the first price history cannot be decoded,
  and the whole call fails with that error.
\<close>

theorem getCurrentSpotPrices_undecodable_counterexample:
  "getCurrentSpotPrices garbledProvider ''r'' world0 =
     (Inl (errorsNew ''unexpected end of JSON input''),
      \<lparr>clientState = (), trace =
         [ZonesCall (Decoded exampleZones),
          SpotPriceHistoryCall ''z1'' ''t1'' (Undecodable (errorsNew ''unexpected end of JSON input''))]\<rparr>) \<and>
   getZones garbledProvider ''r'' world0 =
     (Inr exampleZones, \<lparr>clientState = (), trace = [ZonesCall (Decoded exampleZones)]\<rparr>)"
  by (simp add: garbledProvider_def exampleZones_def example_defs spot_defs)

text \<open>
  C7 (amended). For a service other than \<^verbatim>\<open>ack\<close> and \<^verbatim>\<open>compute\<close>,
  \<^verbatim>\<open>GetProducts\<close> never returns a list; given a non-empty list it fails with the
  invalid-service error and makes no request, given an empty list it fetches the virtual
  machines first and fails with the invalid-service error when the fetch succeeded. For a
  supported service it returns the non-empty list it was given, or the fetched list when
  the fetch succeeded. For every service, an empty list and a failed fetch give the error
  of the fetch, wrapped.
\<close>

theorem GetProducts_service:
  "(service \<noteq> ''ack'' \<and> service \<noteq> ''compute'' \<longrightarrow>
      (\<forall>vmList w'. GetProducts h c vms service regionId w \<noteq> (Ok vmList, w')) \<and>
      (vms \<noteq> [] \<longrightarrow> GetProducts h c vms service regionId w = (Err (invalidService service), w)) \<and>
      (\<forall>vmList w'. vms = [] \<and> GetVirtualMachines h c regionId w = (Ok vmList, w') \<longrightarrow>
         GetProducts h c vms service regionId w = (Err (invalidService service), w'))) \<and>
   (service = ''ack'' \<or> service = ''compute'' \<longrightarrow>
      (vms \<noteq> [] \<longrightarrow> GetProducts h c vms service regionId w = (Ok vms, w)) \<and>
      (\<forall>vmList w'. vms = [] \<and> GetVirtualMachines h c regionId w = (Ok vmList, w') \<longrightarrow>
         GetProducts h c vms service regionId w = (Ok vmList, w'))) \<and>
   (\<forall>err w'. vms = [] \<and> GetVirtualMachines h c regionId w = (Err err, w') \<longrightarrow>
      GetProducts h c vms service regionId w = (Err (emperrorWrap err ''failed to get products''), w'))"
proof -
  have 1: "GetProducts h c vms service regionId w \<noteq> (Ok vmList, w')"
    if "service \<noteq> ''ack''" "service \<noteq> ''compute''" for vmList w'
    using that
    by (auto simp: GetProducts_def serviceSwitch_unsupported split: prod.splits outcome.splits)
  have 2: "GetProducts h c vms service regionId w = (serviceSwitch vms service, w)" if "vms \<noteq> []"
    using that by (simp add: GetProducts_def)
  have 3: "GetProducts h c vms service regionId w = (serviceSwitch vmList service, w')"
    if "vms = []" "GetVirtualMachines h c regionId w = (Ok vmList, w')" for vmList w'
    using that by (simp add: GetProducts_def)
  have 4: "GetProducts h c vms service regionId w = (Err (emperrorWrap err ''failed to get products''), w')"
    if "vms = []" "GetVirtualMachines h c regionId w = (Err err, w')" for err w'
    using that by (simp add: GetProducts_def)
  have A: "service \<noteq> ''ack'' \<and> service \<noteq> ''compute'' \<longrightarrow>
      (\<forall>vmList w'. GetProducts h c vms service regionId w \<noteq> (Ok vmList, w')) \<and>
      (vms \<noteq> [] \<longrightarrow> GetProducts h c vms service regionId w = (Err (invalidService service), w)) \<and>
      (\<forall>vmList w'. vms = [] \<and> GetVirtualMachines h c regionId w = (Ok vmList, w') \<longrightarrow>
         GetProducts h c vms service regionId w = (Err (invalidService service), w'))"
  proof
    assume u: "service \<noteq> ''ack'' \<and> service \<noteq> ''compute''"
    then have sw: "serviceSwitch l service = Err (invalidService service)" for l
      by (simp add: serviceSwitch_unsupported)
    show "(\<forall>vmList w'. GetProducts h c vms service regionId w \<noteq> (Ok vmList, w')) \<and>
      (vms \<noteq> [] \<longrightarrow> GetProducts h c vms service regionId w = (Err (invalidService service), w)) \<and>
      (\<forall>vmList w'. vms = [] \<and> GetVirtualMachines h c regionId w = (Ok vmList, w') \<longrightarrow>
         GetProducts h c vms service regionId w = (Err (invalidService service), w'))"
      using 1 u 2 3 sw by auto
  qed
  have B: "service = ''ack'' \<or> service = ''compute'' \<longrightarrow>
      (vms \<noteq> [] \<longrightarrow> GetProducts h c vms service regionId w = (Ok vms, w)) \<and>
      (\<forall>vmList w'. vms = [] \<and> GetVirtualMachines h c regionId w = (Ok vmList, w') \<longrightarrow>
         GetProducts h c vms service regionId w = (Ok vmList, w'))"
  proof
    assume "service = ''ack'' \<or> service = ''compute''"
    then have sw: "serviceSwitch l service = Ok l" for l
      by (rule serviceSwitch_supported)
    show "(vms \<noteq> [] \<longrightarrow> GetProducts h c vms service regionId w = (Ok vms, w)) \<and>
      (\<forall>vmList w'. vms = [] \<and> GetVirtualMachines h c regionId w = (Ok vmList, w') \<longrightarrow>
         GetProducts h c vms service regionId w = (Ok vmList, w'))"
      using 2 3 sw by auto
  qed
  have C: "\<forall>err w'. vms = [] \<and> GetVirtualMachines h c regionId w = (Err err, w') \<longrightarrow>
      GetProducts h c vms service regionId w = (Err (emperrorWrap err ''failed to get products''), w')"
    using 4 by blast
  show ?thesis by (intro conjI A B C)
qed

text \<open>The theorem at a service that is not supported and at the two that are.\<close>

theorem GetProducts_service_witness:
  "GetProducts exampleHelpers catalogProvider [exampleVM ''a''] ''eks'' ''r'' world0 =
     (Err (invalidService ''eks''), world0) \<and>
   GetProducts exampleHelpers catalogProvider [exampleVM ''a''] ''ack'' ''r'' world0 =
     (Ok [exampleVM ''a''], world0) \<and>
   fst (GetProducts exampleHelpers catalogProvider [] ''compute'' ''r'' world0) =
     fst (GetVirtualMachines exampleHelpers catalogProvider ''r'' world0) \<and>
   fst (GetProducts exampleHelpers catalogProvider [] ''eks'' ''r'' world0) = Err (invalidService ''eks'') \<and>
   fst (GetProducts exampleHelpers downProvider [] ''ack'' ''r'' world0) =
     Err \<lparr>errMessage = ''failed to get products: DescribeInstanceTypes API call problem: ServiceUnavailable'',
          errContext = []\<rparr>"
proof -
  note run = catalog_vms
  have down: "GetVirtualMachines exampleHelpers downProvider ''r'' world0 =
     (Err \<lparr>errMessage = ''DescribeInstanceTypes API call problem: ServiceUnavailable'', errContext = []\<rparr>,
      \<lparr>clientState = (), trace = [InstanceTypesCall (RequestFailed (errorsNew ''ServiceUnavailable''))]\<rparr>)"
    by (simp add: downProvider_def example_defs vm_defs errorsNew_def emperrorWrap_def)
  have ne: "[exampleVM ''a''] \<noteq> []" by simp
  have u: "''eks'' \<noteq> ''ack'' \<and> ''eks'' \<noteq> ''compute''" by simp
  note eks1 = GetProducts_service [of "''eks''" exampleHelpers catalogProvider "[exampleVM ''a'']" "''r''" world0,
      THEN conjunct1, rule_format, OF u]
  note eks2 = GetProducts_service [of "''eks''" exampleHelpers catalogProvider "[]" "''r''" world0,
      THEN conjunct1, rule_format, OF u]
  note ack1 = GetProducts_service [of "''ack''" exampleHelpers catalogProvider "[exampleVM ''a'']" "''r''" world0,
      THEN conjunct2, THEN conjunct1, rule_format, OF disjI1 [OF refl]]
  note cmp = GetProducts_service [of "''compute''" exampleHelpers catalogProvider "[]" "''r''" world0,
      THEN conjunct2, THEN conjunct1, rule_format, OF disjI2 [OF refl]]
  note dwn = GetProducts_service [of "''ack''" exampleHelpers downProvider "[]" "''r''" world0,
      THEN conjunct2, THEN conjunct2, rule_format, OF conjI [OF refl down]]
  have a: "GetProducts exampleHelpers catalogProvider [exampleVM ''a''] ''eks'' ''r'' world0 =
     (Err (invalidService ''eks''), world0)"
    using eks1 [THEN conjunct2, THEN conjunct1] ne by blast
  have b: "GetProducts exampleHelpers catalogProvider [exampleVM ''a''] ''ack'' ''r'' world0 =
     (Ok [exampleVM ''a''], world0)"
    using ack1 [THEN conjunct1] ne by blast
  have c: "fst (GetProducts exampleHelpers catalogProvider [] ''compute'' ''r'' world0) =
     fst (GetVirtualMachines exampleHelpers catalogProvider ''r'' world0)"
    using cmp [THEN conjunct2, rule_format, OF conjI [OF refl run]] run by simp
  have d: "fst (GetProducts exampleHelpers catalogProvider [] ''eks'' ''r'' world0) = Err (invalidService ''eks'')"
    using eks2 [THEN conjunct2, THEN conjunct2, rule_format, OF conjI [OF refl run]] by simp
  have e: "fst (GetProducts exampleHelpers downProvider [] ''ack'' ''r'' world0) =
     Err \<lparr>errMessage = ''failed to get products: DescribeInstanceTypes API call problem: ServiceUnavailable'',
          errContext = []\<rparr>"
    using dwn by (simp add: emperrorWrap_def)
  show ?thesis by (intro conjI a b c d e)
qed

text \<open>
  C7 as stated fails: for the unsupported service \<^verbatim>\<open>eks\<close>, an empty list and a
  provider that is down, the call makes a request and fails with the error of the fetch,
  not with the invalid-service error.
\<close>

theorem GetProducts_fetch_first_counterexample:
  "GetProducts exampleHelpers downProvider [] ''eks'' ''r'' world0 =
     (Err \<lparr>errMessage = ''failed to get products: DescribeInstanceTypes API call problem: ServiceUnavailable'',
           errContext = []\<rparr>,
      \<lparr>clientState = (), trace = [InstanceTypesCall (RequestFailed (errorsNew ''ServiceUnavailable''))]\<rparr>) \<and>
   invalidService ''eks'' = \<lparr>errMessage = ''invalid service: eks'', errContext = []\<rparr> \<and>
   fst (GetProducts exampleHelpers downProvider [] ''eks'' ''r'' world0) \<noteq> Err (invalidService ''eks'')"
  by (simp add: GetProducts_def downProvider_def example_defs vm_defs errorsNew_def emperrorWrap_def
      invalidService_def)

text \<open>
  C8. Every descriptor that \<^verbatim>\<open>GetVirtualMachines\<close> returns has a non-empty list of
  zones: the zones collected for its instance type from the zones of the region, of which
  at least one supports the instance type.
\<close>

theorem GetVirtualMachines_zones_nonempty:
  assumes "GetVirtualMachines h c region w = (Ok vms, w')"
  shows "\<exists>its w1 zs w2.
           getInstanceTypes c w = (Inr its, w1) \<and> getZones c region w1 = (Inr zs, w2) \<and>
           (\<forall>vm \<in> set vms.
              Zones vm \<noteq> [] \<and> Zones vm = zonesLoop zs (Type vm) [] \<and>
              (\<exists>zone \<in> set zs. \<exists>ri \<in> set (AvailableResources zone). Type vm \<in> set (SupportedInstanceType ri)))"
proof -
  from GetVirtualMachines_Ok [OF assms] obtain its zs w1 w2 ap where
    h: "getInstanceTypes c w = (Inr its, w1)" "getZones c region w1 = (Inr zs, w2)"
       "vms = map (withPrice ap) (vmsLoop h its zs [])" by blast
  have "Zones vm \<noteq> [] \<and> Zones vm = zonesLoop zs (Type vm) [] \<and>
        (\<exists>zone \<in> set zs. \<exists>ri \<in> set (AvailableResources zone). Type vm \<in> set (SupportedInstanceType ri))"
    if "vm \<in> set vms" for vm
  proof -
    from that h(3) obtain it where it: "it \<in> set its" "zonesLoop zs (InstanceTypeId it) [] \<noteq> []"
      "vm = withPrice ap (describeVM h it (zonesLoop zs (InstanceTypeId it) []))"
      by (auto simp: vmsLoop_eq)
    then show ?thesis using zonesLoop_nonempty_iff [of zs "InstanceTypeId it"] by simp
  qed
  with h show ?thesis by blast
qed

text \<open>The theorem at the example region: \<^verbatim>\<open>t2\<close>, in no zone, is not listed.\<close>

theorem GetVirtualMachines_zones_nonempty_witness:
  "fst (GetVirtualMachines exampleHelpers catalogProvider ''r'' world0) =
     Ok [\<lparr>Category = ''General purpose'', Type = ''t1'', OnDemandPrice = 2, Cpus = 2, Mem = 4, Gpus = 0,
           NtwPerf = ''1.0 Gbit/s'', NtwPerfCat = ''medium'', Zones = [''z1'', ''z2''],
           Attributes = [''cpu'' \<mapsto> ''2'', ''memory'' \<mapsto> ''4'', ''networkPerfCategory'' \<mapsto> ''medium'',
                         ''instanceTypeCategory'' \<mapsto> ''General purpose'']\<rparr>,
          \<lparr>Category = ''General purpose'', Type = ''t3'', OnDemandPrice = 2, Cpus = 2, Mem = 4, Gpus = 0,
           NtwPerf = ''7.5 Gbit/s'', NtwPerfCat = '''', Zones = [''z1''],
           Attributes = [''cpu'' \<mapsto> ''2'', ''memory'' \<mapsto> ''4'', ''networkPerfCategory'' \<mapsto> '''',
                         ''instanceTypeCategory'' \<mapsto> ''General purpose'']\<rparr>] \<and>
   zonesLoop exampleZones ''t1'' [] = [''z1'', ''z2''] \<and>
   zonesLoop exampleZones ''t2'' [] = [] \<and>
   zonesLoop exampleZones ''t3'' [] = [''z1'']"
proof -
  note run = catalog_vms
  have z: "zonesLoop exampleZones ''t1'' [] = [''z1'', ''z2'']"
    "zonesLoop exampleZones ''t2'' [] = []" "zonesLoop exampleZones ''t3'' [] = [''z1'']"
    by (simp_all add: exampleZones_def)
  from GetVirtualMachines_zones_nonempty [OF run] run z show ?thesis by simp
qed

text \<open>C9. \<^verbatim>\<open>HasShortLivedPriceInfo\<close> returns false for every infoer.\<close>

theorem HasShortLivedPriceInfo_false: "HasShortLivedPriceInfo a = False"
  by (simp add: HasShortLivedPriceInfo_def)

text \<open>
  C10. The follow-up requests of a refused batch panic exactly when one of them
  succeeded with no price, and \<^verbatim>\<open>getPrice\<close> succeeds with no price exactly when the
  provider's response is decoded, has \<^verbatim>\<open>Success\<close> set and has no module detail.
\<close>

theorem retryEach_panic_iff:
  assumes "retryEach c region ts allPrices w = (out, w')"
  shows "(out = Panic \<longleftrightarrow> (\<exists>t. PriceCall RetryRequest [t] (Inr []) \<in> set (newEvents w w'))) \<and>
         (\<forall>t s s'. getPrice c [t] region s = (Inr [], s') \<longleftrightarrow>
            (\<exists>response. GetPayAsYouGoPrice c s region [t] = (Decoded response, s') \<and>
                        Success response \<and> ModuleDetails response = []))"
proof -
  from retryEach_events [OF assms] obtain evs where
    evs: "trace w' = trace w @ evs"
      "out = Panic \<longleftrightarrow> (\<exists>t. PriceCall RetryRequest [t] (Inr []) \<in> set evs)" by blast
  have "newEvents w w' = evs" using evs(1) by (simp add: newEvents_def)
  then show ?thesis using evs(2) by (simp add: getPrice_empty_iff)
qed

text \<open>The theorem at a provider that answers a request for one instance type with success and no price.\<close>

theorem retryEach_panic_iff_witness:
  "retryEach emptyProvider ''r'' [''a'', ''b''] Map.empty world0 =
     (Panic, \<lparr>clientState = (), trace = [PriceCall RetryRequest [''a''] (Inr [])]\<rparr>) \<and>
   PriceCall RetryRequest [''a''] (Inr []) \<in>
     set (newEvents world0 \<lparr>clientState = (), trace = [PriceCall RetryRequest [''a''] (Inr [])]\<rparr>) \<and>
   getPrice emptyProvider [''a''] ''r'' () = (Inr [], ())"
proof -
  have run: "retryEach emptyProvider ''r'' [''a'', ''b''] Map.empty world0 =
     (Panic, \<lparr>clientState = (), trace = [PriceCall RetryRequest [''a''] (Inr [])]\<rparr>)"
    by (simp add: emptyProvider_def example_defs price_defs)
  have gp: "getPrice emptyProvider [''a''] ''r'' () = (Inr [], ())"
    by (simp add: emptyProvider_def example_defs price_defs)
  from retryEach_panic_iff [OF run] run gp show ?thesis
    by (simp add: newEvents_def world0_def)
qed

end
